theory Spec2Isabelle
  imports Complex_Main "HOL-Library.Word"
begin

section \<open>JavaScript strings and integers\<close>

text \<open>
  A string is a list of UTF-16 code units, and \<open>length\<close>, \<open>slice\<close> and \<open>startsWith\<close>
  count units. The model has 256 units, the values of \<^typ>\<open>char\<close>: the units U+0000 to
  U+00FE are the characters of the same code, and \<open>CHR 0xFF\<close> is the unit U+2192, the
  arrow of the path renderings and the only unit above U+00FF that the source writes.
  Strings with any other unit are outside the model.
\<close>

definition arrow :: string where
  "arrow = [CHR 0xFF]"

text \<open>
  \<open>String.prototype.toLowerCase\<close>: among the units of the model, the letters A to Z and
  the Latin-1 capitals U+00C0 to U+00DE (U+00D7 is the multiplication sign) have a lower
  case, 32 units above.
\<close>

definition lowerChar :: "char \<Rightarrow> char" where
  "lowerChar c =
     (let n = (of_char c :: nat)
      in if (65 \<le> n \<and> n \<le> 90) \<or> (192 \<le> n \<and> n \<le> 222 \<and> n \<noteq> 215) then char_of (n + 32) else c)"

definition toLowerCase :: "string \<Rightarrow> string" where
  "toLowerCase s = map lowerChar s"

text \<open>\<open>s.slice(0, 6)\<close> and \<open>s.slice(-4)\<close>.\<close>

definition sliceFirst6 :: "'a list \<Rightarrow> 'a list" where
  "sliceFirst6 s = take 6 s"

definition sliceLast4 :: "'a list \<Rightarrow> 'a list" where
  "sliceLast4 s = drop (length s - 4) s"

text \<open>\<open>Array.prototype.join\<close> on strings.\<close>

fun join :: "string \<Rightarrow> string list \<Rightarrow> string" where
  "join sep [] = []"
| "join sep [x] = x"
| "join sep (x # y # ys) = x @ sep @ join sep (y # ys)"

text \<open>Decimal rendering of a natural number and of an integer (\<open>BigInt.prototype.toString\<close>).\<close>

definition digitChar :: "nat \<Rightarrow> char" where
  "digitChar d = ''0123456789'' ! d"

fun showNatAcc :: "nat \<Rightarrow> string \<Rightarrow> string" where
  "showNatAcc n acc =
     (if n < 10 then digitChar n # acc else showNatAcc (n div 10) (digitChar (n mod 10) # acc))"

declare showNatAcc.simps [simp del]

definition showNat :: "nat \<Rightarrow> string" where
  "showNat n = showNatAcc n []"

definition showInt :: "int \<Rightarrow> string" where
  "showInt i = (if i < 0 then CHR ''-'' # showNat (nat (- i)) else showNat (nat i))"

subsection \<open>\<open>BigInt(string)\<close>\<close>

text \<open>
  ECMAScript's StringToBigInt: surrounding white space and line terminators are trimmed
  (among the units of the model: space, U+0009 to U+000D and the no-break space U+00A0);
  the empty string is 0; a decimal literal may carry a sign; \<open>0x\<close>, \<open>0o\<close> and \<open>0b\<close>
  literals may not. Anything else is a SyntaxError, here \<open>None\<close>.
\<close>

definition isSpace :: "char \<Rightarrow> bool" where
  "isSpace c = (c \<in> set [CHR '' '', CHR 0x09, CHR 0x0A, CHR 0x0B, CHR 0x0C, CHR 0x0D, CHR 0xA0])"

definition trim :: "string \<Rightarrow> string" where
  "trim s = rev (dropWhile isSpace (rev (dropWhile isSpace s)))"

definition digitVal :: "char \<Rightarrow> nat option" where
  "digitVal c = (let n = (of_char c :: nat) in
     if 48 \<le> n \<and> n \<le> 57 then Some (n - 48)
     else if 97 \<le> n \<and> n \<le> 102 then Some (n - 87)
     else if 65 \<le> n \<and> n \<le> 70 then Some (n - 55)
     else None)"

fun parseDigitsAcc :: "nat \<Rightarrow> nat \<Rightarrow> string \<Rightarrow> nat option" where
  "parseDigitsAcc b acc [] = Some acc"
| "parseDigitsAcc b acc (c # cs) =
     (case digitVal c of
        None \<Rightarrow> None
      | Some d \<Rightarrow> if d < b then parseDigitsAcc b (acc * b + d) cs else None)"

definition parseDigits :: "nat \<Rightarrow> string \<Rightarrow> nat option" where
  "parseDigits b ds = (if ds = [] then None else parseDigitsAcc b 0 ds)"

definition stringToBigInt :: "string \<Rightarrow> int option" where
  "stringToBigInt s =
     (let t = trim s in
      if t = [] then Some 0
      else if take 2 t = ''0x'' \<or> take 2 t = ''0X'' then map_option int (parseDigits 16 (drop 2 t))
      else if take 2 t = ''0o'' \<or> take 2 t = ''0O'' then map_option int (parseDigits 8 (drop 2 t))
      else if take 2 t = ''0b'' \<or> take 2 t = ''0B'' then map_option int (parseDigits 2 (drop 2 t))
      else if hd t = CHR ''-'' then map_option (\<lambda>n. - int n) (parseDigits 10 (tl t))
      else if hd t = CHR ''+'' then map_option int (parseDigits 10 (tl t))
      else map_option int (parseDigits 10 t))"

subsection \<open>\<open>formatUnits\<close> of the viem library\<close>

text \<open>
  \<open>formatUnits(value, decimals)\<close> is imported from viem and works on the text of
  \<open>value.toString()\<close>: the sign is set aside, the digits are padded with zeros on the
  left to \<open>decimals\<close> characters, the last \<open>decimals\<close> characters are the fraction, and
  the zeros at the end of the fraction are dropped.
\<close>

definition padStart :: "nat \<Rightarrow> char \<Rightarrow> string \<Rightarrow> string" where
  "padStart n c s = replicate (n - length s) c @ s"

definition stripTrailingZeros :: "string \<Rightarrow> string" where
  "stripTrailingZeros s = rev (dropWhile (\<lambda>c. c = CHR ''0'') (rev s))"

definition formatUnitsText :: "string \<Rightarrow> nat \<Rightarrow> string" where
  "formatUnitsText text decimals =
     (let negative = (take 1 text = ''-'');
          display = padStart decimals (CHR ''0'') (if negative then drop 1 text else text);
          integer = take (length display - decimals) display;
          fraction = stripTrailingZeros (drop (length display - decimals) display)
      in (if negative then ''-'' else [])
         @ (if integer = [] then ''0'' else integer)
         @ (if fraction = [] then [] else ''.'' @ fraction))"

text \<open>
  The truncation of \<open>formatTokenAmount\<close>: \<open>formatted.split('.')\<close>, the first part, at
  most six characters of the second part, joined by a point when the second is not empty.
\<close>

definition wholePart :: "string \<Rightarrow> string" where
  "wholePart formatted = takeWhile (\<lambda>c. c \<noteq> CHR ''.'') formatted"

definition decimalPart :: "string \<Rightarrow> string" where
  "decimalPart formatted =
     takeWhile (\<lambda>c. c \<noteq> CHR ''.'') (drop 1 (dropWhile (\<lambda>c. c \<noteq> CHR ''.'') formatted))"

definition displayAmount :: "string \<Rightarrow> string" where
  "displayAmount formatted =
     (let limitedDecimal = take 6 (decimalPart formatted)
      in if limitedDecimal \<noteq> [] then wholePart formatted @ ''.'' @ limitedDecimal
         else wholePart formatted)"

section \<open>Decoded values\<close>

text \<open>
  A parameter value of the decoder is \<open>unknown\<close> to the formatter. It is modelled as a
  tree of data: the primitives, arrays, and plain objects as lists of properties in
  insertion order (property names are distinct and none is an array index). Functions
  and symbols are not data and are outside the model.

  A Number is one of the integers that the decoder produces for the Solidity types of
  at most 48 bits (fee tiers, flags, deadlines), kept as a signed 49-bit word, or one
  of the three values that are not finite. At these magnitudes \<open>String\<close> prints all the
  digits of an integer, and the quotient of an integer by 10000 is printed as its
  decimal expansion. \<open>JBigInt\<close> is a native bigint.
\<close>

datatype number = Integral "49 word" | NaN | PosInfinity | NegInfinity

datatype jsval =
    JUndefined
  | JNull
  | JBool bool
  | JNum number
  | JBigInt int
  | JStr string
  | JArr "jsval list"
  | JObj "(string \<times> jsval) list"

datatype error = TypeError | SyntaxError | RangeError

text \<open>\<open>String(n)\<close> for a Number.\<close>

fun numberText :: "number \<Rightarrow> string" where
  "numberText (Integral w) = showInt (sint w)"
| "numberText NaN = ''NaN''"
| "numberText PosInfinity = ''Infinity''"
| "numberText NegInfinity = ''-Infinity''"

text \<open>Truthiness (\<open>ToBoolean\<close>).\<close>

fun truthy :: "jsval \<Rightarrow> bool" where
  "truthy JUndefined = False"
| "truthy JNull = False"
| "truthy (JBool b) = b"
| "truthy (JNum n) = (n \<noteq> Integral 0 \<and> n \<noteq> NaN)"
| "truthy (JBigInt n) = (n \<noteq> 0)"
| "truthy (JStr s) = (s \<noteq> [])"
| "truthy (JArr xs) = True"
| "truthy (JObj kvs) = True"

text \<open>\<open>a || b\<close>.\<close>

definition orElse :: "jsval \<Rightarrow> jsval \<Rightarrow> jsval" where
  "orElse a b = (if truthy a then a else b)"

text \<open>\<open>typeof v === 'object' && v !== null\<close>: arrays are objects too.\<close>

fun isObject :: "jsval \<Rightarrow> bool" where
  "isObject (JArr xs) = True"
| "isObject (JObj kvs) = True"
| "isObject v = False"

text \<open>\<open>k in v\<close> for an object \<open>v\<close> and the property names the source asks for; an array
  has none of them.\<close>

fun hasKey :: "string \<Rightarrow> jsval \<Rightarrow> bool" where
  "hasKey k (JObj kvs) = (k \<in> set (map fst kvs))"
| "hasKey k v = False"

fun lookupProp :: "string \<Rightarrow> (string \<times> jsval) list \<Rightarrow> jsval" where
  "lookupProp k [] = JUndefined"
| "lookupProp k ((k', v) # kvs) = (if k = k' then v else lookupProp k kvs)"

text \<open>\<open>v.k\<close>: a TypeError on null and undefined, undefined on a primitive or an array.\<close>

fun getProp :: "jsval \<Rightarrow> string \<Rightarrow> error + jsval" where
  "getProp (JObj kvs) k = Inr (lookupProp k kvs)"
| "getProp JUndefined k = Inl TypeError"
| "getProp JNull k = Inl TypeError"
| "getProp v k = Inr JUndefined"

text \<open>The same on a value known not to be null or undefined.\<close>

fun propOf :: "jsval \<Rightarrow> string \<Rightarrow> jsval" where
  "propOf (JObj kvs) k = lookupProp k kvs"
| "propOf v k = JUndefined"

text \<open>\<open>String(v)\<close> and template literals. In an array's \<open>join\<close>, null and undefined
  are empty.\<close>

fun jsToString :: "jsval \<Rightarrow> string"
  and joinElems :: "jsval list \<Rightarrow> string" where
  "jsToString JUndefined = ''undefined''"
| "jsToString JNull = ''null''"
| "jsToString (JBool b) = (if b then ''true'' else ''false'')"
| "jsToString (JNum n) = numberText n"
| "jsToString (JBigInt n) = showInt n"
| "jsToString (JStr s) = s"
| "jsToString (JArr xs) = joinElems xs"
| "jsToString (JObj kvs) = ''[object Object]''"
| "joinElems [] = []"
| "joinElems [x] = (if x = JNull \<or> x = JUndefined then [] else jsToString x)"
| "joinElems (x # y # ys) =
     (if x = JNull \<or> x = JUndefined then [] else jsToString x) @ '','' @ joinElems (y # ys)"

text \<open>\<open>v.toString()\<close>: as \<open>String(v)\<close>, but a TypeError on null and undefined.\<close>

definition toStringMethod :: "jsval \<Rightarrow> error + string" where
  "toStringMethod v = (if v = JNull \<or> v = JUndefined then Inl TypeError else Inr (jsToString v))"

definition formatUnits :: "jsval \<Rightarrow> nat \<Rightarrow> error + string" where
  "formatUnits v decimals =
     (case toStringMethod v of Inl e \<Rightarrow> Inl e | Inr text \<Rightarrow> Inr (formatUnitsText text decimals))"

text \<open>\<open>BigInt(v)\<close>: a Number that is not an integer is a RangeError; an object or array is
  first turned into its string.\<close>

fun toBigInt :: "jsval \<Rightarrow> error + int" where
  "toBigInt JUndefined = Inl TypeError"
| "toBigInt JNull = Inl TypeError"
| "toBigInt (JBool b) = Inr (if b then 1 else 0)"
| "toBigInt (JNum (Integral w)) = Inr (sint w)"
| "toBigInt (JNum n) = Inl RangeError"
| "toBigInt (JBigInt n) = Inr n"
| "toBigInt v = (case stringToBigInt (jsToString v) of None \<Rightarrow> Inl SyntaxError | Some n \<Rightarrow> Inr n)"

text \<open>\<open>v.slice(0, 6)\<close> and \<open>v.slice(-4)\<close> in a template literal: strings and arrays have
  the method, nothing else has.\<close>

fun shortForm :: "jsval \<Rightarrow> error + string" where
  "shortForm (JStr s) = Inr (sliceFirst6 s @ ''...'' @ sliceLast4 s)"
| "shortForm (JArr xs) = Inr (joinElems (sliceFirst6 xs) @ ''...'' @ joinElems (sliceLast4 xs))"
| "shortForm v = Inl TypeError"

subsection \<open>\<open>JSON.stringify(value, null, 2)\<close>\<close>

text \<open>
  The serialization with a two-space gap. A bigint anywhere in the value raises a
  TypeError; \<open>undefined\<close> has no serialization (\<open>None\<close>), is left out of an object and
  is \<open>null\<close> in an array; a Number that is not finite is \<open>null\<close>.
\<close>

definition newline :: string where
  "newline = [CHR 0x0A]"

definition hexDigit :: "nat \<Rightarrow> char" where
  "hexDigit d = ''0123456789abcdef'' ! d"

definition quoteChar :: "char \<Rightarrow> string" where
  "quoteChar c =
     (let n = (of_char c :: nat) in
      if n = 34 then [CHR 0x5C, CHR 0x22]
      else if n = 92 then [CHR 0x5C, CHR 0x5C]
      else if n = 8 then [CHR 0x5C, CHR ''b'']
      else if n = 12 then [CHR 0x5C, CHR ''f'']
      else if n = 10 then [CHR 0x5C, CHR ''n'']
      else if n = 13 then [CHR 0x5C, CHR ''r'']
      else if n = 9 then [CHR 0x5C, CHR ''t'']
      else if n < 32 then [CHR 0x5C, CHR ''u'', CHR ''0'', CHR ''0'',
                           hexDigit (n div 16), hexDigit (n mod 16)]
      else [c])"

definition quoteJSONString :: "string \<Rightarrow> string" where
  "quoteJSONString s = [CHR 0x22] @ concat (map quoteChar s) @ [CHR 0x22]"

fun serializeJSON :: "string \<Rightarrow> jsval \<Rightarrow> error + string option"
  and serializeElems :: "string \<Rightarrow> jsval list \<Rightarrow> error + string list"
  and serializeProps :: "string \<Rightarrow> (string \<times> jsval) list \<Rightarrow> error + string list" where
  "serializeJSON ind JUndefined = Inr None"
| "serializeJSON ind JNull = Inr (Some ''null'')"
| "serializeJSON ind (JBool b) = Inr (Some (if b then ''true'' else ''false''))"
| "serializeJSON ind (JNum n) =
     Inr (Some (case n of Integral w \<Rightarrow> showInt (sint w) | _ \<Rightarrow> ''null''))"
| "serializeJSON ind (JBigInt n) = Inl TypeError"
| "serializeJSON ind (JStr s) = Inr (Some (quoteJSONString s))"
| "serializeJSON ind (JArr xs) =
     (case serializeElems (ind @ ''  '') xs of
        Inl e \<Rightarrow> Inl e
      | Inr partial \<Rightarrow>
          if partial = [] then Inr (Some ''[]'')
          else Inr (Some (''['' @ newline @ ind @ ''  ''
                 @ join ('','' @ newline @ ind @ ''  '') partial @ newline @ ind @ '']'')))"
| "serializeJSON ind (JObj kvs) =
     (case serializeProps (ind @ ''  '') kvs of
        Inl e \<Rightarrow> Inl e
      | Inr partial \<Rightarrow>
          if partial = [] then Inr (Some ''{}'')
          else Inr (Some (''{'' @ newline @ ind @ ''  ''
                 @ join ('','' @ newline @ ind @ ''  '') partial @ newline @ ind @ ''}'')))"
| "serializeElems ind [] = Inr []"
| "serializeElems ind (x # xs) =
     (case serializeJSON ind x of
        Inl e \<Rightarrow> Inl e
      | Inr strP \<Rightarrow>
          (case serializeElems ind xs of
             Inl e \<Rightarrow> Inl e
           | Inr rest \<Rightarrow> Inr ((case strP of None \<Rightarrow> ''null'' | Some s \<Rightarrow> s) # rest)))"
| "serializeProps ind [] = Inr []"
| "serializeProps ind ((k, v) # kvs) =
     (case serializeJSON ind v of
        Inl e \<Rightarrow> Inl e
      | Inr strP \<Rightarrow>
          (case serializeProps ind kvs of
             Inl e \<Rightarrow> Inl e
           | Inr rest \<Rightarrow>
               Inr (case strP of None \<Rightarrow> rest
                    | Some s \<Rightarrow> (quoteJSONString k @ '': '' @ s) # rest)))"

definition jsonStringify :: "jsval \<Rightarrow> error + string option" where
  "jsonStringify v = serializeJSON [] v"

section \<open>The token registry (\<open>tokenResolver.ts\<close>)\<close>

record TokenInfo =
  symbol :: string
  decimals :: nat
  logo :: string
  contract :: "string option"
  priceInUsd :: rat

record LayerSwapToken =
  t_symbol :: string
  t_contract :: "string option"
  t_decimals :: nat
  t_logo :: string
  price_in_usd :: rat

record LayerSwapNetwork =
  chain_id :: string
  tokens :: "LayerSwapToken list"

type_synonym tokenCache = "string \<rightharpoonup> TokenInfo"

definition zeroAddress :: string where
  "zeroAddress = ''0x0000000000000000000000000000000000000000''"

text \<open>The metadata that \<open>resolveToken\<close> makes up for the native token.\<close>

definition nativeToken :: TokenInfo where
  "nativeToken = \<lparr>symbol = ''ETH'', decimals = 18, logo = [], contract = None, priceInUsd = 0\<rparr>"

text \<open>
  \<open>isAddress\<close> is imported from viem: the text matches \<open>/^0x[a-fA-F0-9]{40}$/\<close> and, when
  it has an upper-case letter, carries the EIP-55 checksum. The checksum test needs
  Keccak-256 and is the parameter \<open>checksumOk\<close>.
\<close>

definition isHexChar :: "char \<Rightarrow> bool" where
  "isHexChar c = (digitVal c \<noteq> None)"

definition addressRegex :: "string \<Rightarrow> bool" where
  "addressRegex a = (take 2 a = ''0x'' \<and> length a = 42 \<and> list_all isHexChar (drop 2 a))"

definition isAddress :: "(string \<Rightarrow> bool) \<Rightarrow> string \<Rightarrow> bool" where
  "isAddress checksumOk a = (addressRegex a \<and> (toLowerCase a = a \<or> checksumOk a))"

text \<open>The two \<open>tokenCache.set\<close> calls for one token of the network \<open>cid\<close>.\<close>

definition tokenInfoOf :: "LayerSwapToken \<Rightarrow> TokenInfo" where
  "tokenInfoOf t = \<lparr>symbol = t_symbol t, decimals = t_decimals t, logo = t_logo t,
                      contract = t_contract t, priceInUsd = price_in_usd t\<rparr>"

definition cacheToken :: "string \<Rightarrow> LayerSwapToken \<Rightarrow> tokenCache \<Rightarrow> tokenCache" where
  "cacheToken cid t cache =
     (let address = (case t_contract t of
                       None \<Rightarrow> ''native''
                     | Some a \<Rightarrow> if toLowerCase a = [] then ''native'' else toLowerCase a);
          key = cid @ '':'' @ address;
          cache1 = cache(key \<mapsto> tokenInfoOf t)
      in case t_contract t of
           None \<Rightarrow> cache1
         | Some a \<Rightarrow> if a = [] then cache1 else cache1(toLowerCase a \<mapsto> tokenInfoOf t))"

fun cacheTokens :: "string \<Rightarrow> LayerSwapToken list \<Rightarrow> tokenCache \<Rightarrow> tokenCache" where
  "cacheTokens cid [] cache = cache"
| "cacheTokens cid (t # ts) cache = cacheTokens cid ts (cacheToken cid t cache)"

fun buildCache :: "LayerSwapNetwork list \<Rightarrow> tokenCache \<Rightarrow> tokenCache" where
  "buildCache [] cache = cache"
| "buildCache (network # rest) cache =
     buildCache rest (cacheTokens (chain_id network) (tokens network) cache)"

text \<open>
  \<open>resolveToken(address, chainId)\<close> after its \<open>await fetchLayerSwapData()\<close>, on the
  cache as loaded. A missing or null \<open>chainId\<close> is \<open>None\<close>.
\<close>

definition resolveToken ::
  "(string \<Rightarrow> bool) \<Rightarrow> tokenCache \<Rightarrow> string \<Rightarrow> string option \<Rightarrow> TokenInfo option" where
  "resolveToken checksumOk cache address chainId =
     (if address = [] \<or> address = zeroAddress then Some nativeToken
      else if \<not> isAddress checksumOk address then None
      else
        (let lowerAddress = toLowerCase address;
             scoped = (case chainId of
                         None \<Rightarrow> None
                       | Some c \<Rightarrow> if c = [] then None else cache (c @ '':'' @ lowerAddress))
         in case scoped of
              Some token \<Rightarrow> Some token
            | None \<Rightarrow> cache lowerAddress))"

text \<open>
  The formatter hands \<open>any\<close> values to \<open>resolveToken\<close>. A falsy one is the native token
  by the first test. Any other non-string fails the pattern of \<open>isAddress\<close> and is not
  found, unless its text matches: then \<open>toLowerCase\<close> is not a function of it.
\<close>

fun resolveTokenAny ::
  "(string \<Rightarrow> bool) \<Rightarrow> tokenCache \<Rightarrow> jsval \<Rightarrow> string option \<Rightarrow> error + TokenInfo option" where
  "resolveTokenAny checksumOk cache (JStr a) chainId = Inr (resolveToken checksumOk cache a chainId)"
| "resolveTokenAny checksumOk cache v chainId =
     (if \<not> truthy v then Inr (Some nativeToken)
      else if addressRegex (jsToString v) then Inl TypeError
      else Inr None)"

text \<open>\<open>chainId || undefined\<close>.\<close>

definition orUndefined :: "string option \<Rightarrow> string option" where
  "orUndefined chainId = (case chainId of None \<Rightarrow> None | Some c \<Rightarrow> if c = [] then None else Some c)"

section \<open>The formatter (\<open>enhancedFormatter.ts\<close>)\<close>

text \<open>
  The functions are \<open>async\<close>; each of their \<open>await\<close>s is on \<open>resolveToken\<close> or on one
  another, so a run is the sequence of its calls. An exception is \<open>Inl\<close>; \<open>bindE\<close>
  continues after a call that returned.

  Two computations are the runtime's and the library's and are parameters of the
  formatter: \<open>checksum\<close>, the EIP-55 test of \<open>isAddress\<close>, and \<open>quotient\<close>, the text of
  \<open>s / 10000\<close> for a string \<open>s\<close> (its conversion by \<open>ToNumber\<close>, the division of doubles
  and the printing of the result).
\<close>

record runtime =
  checksum :: "string \<Rightarrow> bool"
  quotient :: "string \<Rightarrow> string"

definition bindE :: "error + 'a \<Rightarrow> ('a \<Rightarrow> error + 'b) \<Rightarrow> error + 'b" where
  "bindE m f = (case m of Inl e \<Rightarrow> Inl e | Inr x \<Rightarrow> f x)"

definition isBigNumberLike :: "jsval \<Rightarrow> bool" where
  "isBigNumberLike v =
     (isObject v \<and> (hasKey ''hex'' v \<or> hasKey ''_hex'' v)
      \<and> (if hasKey ''type'' v then propOf v ''type'' = JStr ''BigNumber'' else True))"

definition CONTRACT_BALANCE :: string where
  "CONTRACT_BALANCE = ''0x8000000000000000000000000000000000000000000000000000000000000000''"

definition balanceMarker :: string where
  "balanceMarker = ''CONTRACT_BALANCE (use all from previous step)''"

text \<open>\<open>bn.hex || bn._hex\<close>.\<close>

definition hexOf :: "jsval \<Rightarrow> jsval" where
  "hexOf bn = orElse (propOf bn ''hex'') (propOf bn ''_hex'')"

definition bigNumberToBigInt :: "jsval \<Rightarrow> error + int" where
  "bigNumberToBigInt bn = (let hex = hexOf bn in if \<not> truthy hex then Inr 0 else toBigInt hex)"

text \<open>
  The conversion at the head of \<open>formatTokenAmount\<close> either returns from the function
  (\<open>Return\<close>), throws, or leaves \<open>amountBigInt\<close>, which is the amount itself when that is
  neither a record nor a string.
\<close>

datatype conversion = Return string | Throw error | Amount jsval

definition convertAmount :: "jsval \<Rightarrow> conversion" where
  "convertAmount amount =
     (if isBigNumberLike amount then
        (case bigNumberToBigInt amount of Inl e \<Rightarrow> Throw e | Inr n \<Rightarrow> Amount (JBigInt n))
      else case amount of
        JStr s \<Rightarrow>
          if s = CONTRACT_BALANCE then Return balanceMarker
          else (case toBigInt (JStr s) of Inl e \<Rightarrow> Return s | Inr n \<Rightarrow> Amount (JBigInt n))
      | _ \<Rightarrow> Amount amount)"

definition formatTokenAmount ::
  "runtime \<Rightarrow> tokenCache \<Rightarrow> jsval \<Rightarrow> jsval \<Rightarrow> string option \<Rightarrow> error + string" where
  "formatTokenAmount rt cache amount tokenAddress chainId =
     (if isBigNumberLike amount \<and> hexOf amount = JStr CONTRACT_BALANCE then Inr balanceMarker
      else case convertAmount amount of
        Return s \<Rightarrow> Inr s
      | Throw e \<Rightarrow> Inl e
      | Amount amountBigInt \<Rightarrow>
          bindE (if truthy tokenAddress
                 then resolveTokenAny (checksum rt) cache tokenAddress (orUndefined chainId)
                 else Inr None)
            (\<lambda>tokenInfo. case tokenInfo of
               Some info \<Rightarrow>
                 bindE (formatUnits amountBigInt (decimals info))
                   (\<lambda>formatted. Inr (displayAmount formatted @ '' '' @ symbol info))
             | None \<Rightarrow>
                 bindE (formatUnits amountBigInt 18)
                   (\<lambda>formatted. Inr (formatted @ '' tokens''))))"

text \<open>\<open>token?.symbol || alt\<close>: \<open>alt\<close> is evaluated only when there is no symbol.\<close>

definition symbolOr :: "TokenInfo option \<Rightarrow> (error + string) \<Rightarrow> error + string" where
  "symbolOr token alt =
     (case token of None \<Rightarrow> alt | Some t \<Rightarrow> if symbol t = [] then alt else Inr (symbol t))"

text \<open>
  \<open>hop.fee ? ` (${hop.fee / 10000}%)` : ''\<close>. A falsy fee gives no text. The quotient of
  an integral fee by 10000 is printed as its decimal expansion, which has at most four
  places; \<open>true\<close> counts as 1; an infinite fee stays infinite. A bigint fee raises a
  TypeError. A string is converted by the runtime, an array through the string of its
  \<open>join\<close>, and the string of a plain object is not a number.
\<close>

definition percentText :: "int \<Rightarrow> string" where
  "percentText fee = formatUnitsText (showInt fee) 4"

definition percentOf :: "string \<Rightarrow> string" where
  "percentOf quotientText = '' ('' @ quotientText @ ''%)''"

fun feeText :: "runtime \<Rightarrow> jsval \<Rightarrow> error + string" where
  "feeText rt JUndefined = Inr []"
| "feeText rt JNull = Inr []"
| "feeText rt (JBool b) = Inr (if b then percentOf (percentText 1) else [])"
| "feeText rt (JNum (Integral w)) = Inr (if w = 0 then [] else percentOf (percentText (sint w)))"
| "feeText rt (JNum NaN) = Inr []"
| "feeText rt (JNum PosInfinity) = Inr (percentOf ''Infinity'')"
| "feeText rt (JNum NegInfinity) = Inr (percentOf ''-Infinity'')"
| "feeText rt (JBigInt n) = (if n = 0 then Inr [] else Inl TypeError)"
| "feeText rt (JStr s) = Inr (if s = [] then [] else percentOf (quotient rt s))"
| "feeText rt (JArr xs) = Inr (percentOf (quotient rt (joinElems xs)))"
| "feeText rt (JObj kvs) = Inr (percentOf ''NaN'')"

definition v2Token :: "runtime \<Rightarrow> tokenCache \<Rightarrow> string option \<Rightarrow> jsval \<Rightarrow> error + string" where
  "v2Token rt cache chainId address =
     bindE (resolveTokenAny (checksum rt) cache address (orUndefined chainId))
       (\<lambda>token. symbolOr token (shortForm address))"

fun mapE :: "('a \<Rightarrow> error + 'b) \<Rightarrow> 'a list \<Rightarrow> error + 'b list" where
  "mapE f [] = Inr []"
| "mapE f (x # xs) = bindE (f x) (\<lambda>y. bindE (mapE f xs) (\<lambda>ys. Inr (y # ys)))"

definition formatV2Path ::
  "runtime \<Rightarrow> tokenCache \<Rightarrow> jsval list \<Rightarrow> string option \<Rightarrow> error + string" where
  "formatV2Path rt cache path chainId =
     bindE (mapE (v2Token rt cache chainId) path)
       (\<lambda>tokens. Inr (join ('' '' @ arrow @ '' '') tokens))"

definition v3Step :: "runtime \<Rightarrow> tokenCache \<Rightarrow> string option \<Rightarrow> jsval \<Rightarrow> error + string" where
  "v3Step rt cache chainId hop =
     bindE (getProp hop ''tokenOut'')
       (\<lambda>tokenOut. bindE (resolveTokenAny (checksum rt) cache tokenOut (orUndefined chainId))
       (\<lambda>token. bindE (symbolOr token (shortForm tokenOut))
       (\<lambda>sym. bindE (feeText rt (propOf hop ''fee''))
       (\<lambda>fee. Inr (arrow @ fee @ '' '' @ sym)))))"

definition formatV3Path ::
  "runtime \<Rightarrow> tokenCache \<Rightarrow> jsval list \<Rightarrow> string option \<Rightarrow> error + string" where
  "formatV3Path rt cache path chainId =
     (case path of
        [] \<Rightarrow> Inr []
      | firstHop # _ \<Rightarrow>
          bindE (getProp firstHop ''tokenIn'')
            (\<lambda>tokenIn. bindE (resolveTokenAny (checksum rt) cache tokenIn (orUndefined chainId))
            (\<lambda>firstToken. bindE (symbolOr firstToken (shortForm tokenIn))
            (\<lambda>first. bindE (mapE (v3Step rt cache chainId) path)
            (\<lambda>steps. Inr (join '' '' (first # steps)))))))"

text \<open>A hop of a V4 path without intermediate currency adds no step (\<open>None\<close>).\<close>

definition v4Step ::
  "runtime \<Rightarrow> tokenCache \<Rightarrow> string option \<Rightarrow> jsval \<Rightarrow> error + string option" where
  "v4Step rt cache chainId hop =
     bindE (getProp hop ''intermediateCurrency'')
       (\<lambda>currency.
          if truthy currency then
            bindE (resolveTokenAny (checksum rt) cache currency (orUndefined chainId))
              (\<lambda>token. bindE (symbolOr token (Inr ''Unknown''))
              (\<lambda>sym. bindE (feeText rt (propOf hop ''fee''))
              (\<lambda>fee. Inr (Some (arrow @ '' '' @ sym @ fee)))))
          else Inr None)"

definition formatV4Path ::
  "runtime \<Rightarrow> tokenCache \<Rightarrow> jsval list \<Rightarrow> string option \<Rightarrow> error + string" where
  "formatV4Path rt cache path chainId =
     bindE (mapE (v4Step rt cache chainId) path)
       (\<lambda>steps. Inr (join '' '' (concat (map (\<lambda>s. case s of None \<Rightarrow> [] | Some t \<Rightarrow> [t]) steps))))"

text \<open>
  \<open>formatSwapObject\<close>: \<open>swapParts\<close> is the body of its \<open>try\<close> and returns the array
  \<open>parts\<close>. The short form of a currency is computed before the symbol is looked at.
\<close>

definition currencyLabel ::
  "runtime \<Rightarrow> tokenCache \<Rightarrow> string option \<Rightarrow> jsval \<Rightarrow> error + string" where
  "currencyLabel rt cache chainId currency =
     bindE (resolveTokenAny (checksum rt) cache currency (orUndefined chainId))
       (\<lambda>token. bindE (if currency = JStr zeroAddress then Inr ''Native ETH'' else shortForm currency)
       (\<lambda>addr. symbolOr token (Inr addr)))"

definition amountLine ::
  "runtime \<Rightarrow> tokenCache \<Rightarrow> string option \<Rightarrow> string \<Rightarrow> jsval \<Rightarrow> jsval
    \<Rightarrow> error + string list" where
  "amountLine rt cache chainId label amount tokenAddress =
     (if truthy amount
      then bindE (formatTokenAmount rt cache amount tokenAddress chainId)
             (\<lambda>formatted. Inr [label @ formatted])
      else Inr [])"

definition swapParts ::
  "runtime \<Rightarrow> tokenCache \<Rightarrow> jsval \<Rightarrow> string option \<Rightarrow> error + string list" where
  "swapParts rt cache obj chainId =
     (let path = propOf obj ''path'';
          currencyIn = propOf obj ''currencyIn'';
          currencyOut = propOf obj ''currencyOut''
      in
      bindE (case path of
               JArr (hop # _) \<Rightarrow> getProp hop ''intermediateCurrency''
             | _ \<Rightarrow> Inr JUndefined)
        (\<lambda>pathToken.
      bindE (if truthy currencyIn
             then bindE (currencyLabel rt cache chainId currencyIn)
                    (\<lambda>l. Inr [''From: '' @ l])
             else Inr [])
        (\<lambda>fromLine.
      bindE (if truthy currencyOut
             then bindE (currencyLabel rt cache chainId currencyOut)
                    (\<lambda>l. Inr [''To: '' @ l])
             else Inr [])
        (\<lambda>toLine.
      let outputToken = (if truthy currencyOut then currencyOut else pathToken) in
      bindE (amountLine rt cache chainId ''Amount In: '' (propOf obj ''amountIn'') currencyIn)
        (\<lambda>inLine.
      bindE (amountLine rt cache chainId ''Amount Out: '' (propOf obj ''amountOut'')
               (orElse outputToken currencyOut))
        (\<lambda>outLine.
      bindE (amountLine rt cache chainId ''Min Out: '' (propOf obj ''amountOutMinimum'')
               (orElse outputToken currencyOut))
        (\<lambda>minLine.
      bindE (case path of
               JArr hops \<Rightarrow>
                 bindE (formatV4Path rt cache hops chainId)
                   (\<lambda>pathDesc. Inr (if pathDesc = [] then [] else [''Path: '' @ pathDesc]))
             | _ \<Rightarrow> Inr [])
        (\<lambda>pathLine.
      Inr (fromLine @ toLine @ inLine @ outLine @ minLine @ pathLine)))))))))"

definition formatSwapObject ::
  "runtime \<Rightarrow> tokenCache \<Rightarrow> jsval \<Rightarrow> string option \<Rightarrow> string" where
  "formatSwapObject rt cache obj chainId =
     (case swapParts rt cache obj chainId of
        Inl e \<Rightarrow> ''Error formatting swap details''
      | Inr parts \<Rightarrow> if parts = [] then ''Swap Details'' else join newline parts)"

record formatResult =
  formatted :: string
  raw :: string

text \<open>The four tests on the elements of an array, in the order of the source.\<close>

definition isNamedField :: "jsval \<Rightarrow> bool" where
  "isNamedField item = (isObject item \<and> hasKey ''name'' item \<and> hasKey ''value'' item)"

fun isAddressText :: "jsval \<Rightarrow> bool" where
  "isAddressText (JStr s) = (take 2 s = ''0x'' \<and> length s = 42)"
| "isAddressText v = False"

definition isV3Hop :: "jsval \<Rightarrow> bool" where
  "isV3Hop item = (isObject item \<and> hasKey ''tokenIn'' item \<and> hasKey ''tokenOut'' item)"

definition isV4Hop :: "jsval \<Rightarrow> bool" where
  "isV4Hop item = (isObject item \<and> hasKey ''intermediateCurrency'' item)"

lemma size_lookupProp [termination_simp]: "size (lookupProp k kvs) \<le> size_list (size_prod (\<lambda>_. 0) size) kvs"
  by (induction kvs) auto

lemma size_propOf [termination_simp]: "size (propOf item k) \<le> size item"
  by (cases item) (auto intro: le_trans [OF size_lookupProp])

text \<open>
  \<open>formatValueEnhanced\<close>. \<open>raw\<close> is computed before the \<open>try\<close>, so a TypeError of
  \<open>JSON.stringify\<close> leaves the function; it is undefined only for the value undefined,
  which returns at the first test. \<open>tryFormat\<close> is the body of the \<open>try\<close>, and
  \<open>formatItems\<close> the loop over a list of named fields.
\<close>

function (sequential) formatValueEnhanced ::
    "runtime \<Rightarrow> tokenCache \<Rightarrow> jsval \<Rightarrow> jsval \<Rightarrow> string option \<Rightarrow> jsval
      \<Rightarrow> error + formatResult"
  and tryFormat ::
    "runtime \<Rightarrow> tokenCache \<Rightarrow> string \<Rightarrow> jsval \<Rightarrow> string option \<Rightarrow> jsval
      \<Rightarrow> error + formatResult"
  and formatItems ::
    "runtime \<Rightarrow> tokenCache \<Rightarrow> jsval list \<Rightarrow> string option \<Rightarrow> error + string list" where
  "formatValueEnhanced rt cache name val chainId contextToken =
     (case jsonStringify val of
        Inl e \<Rightarrow> Inl e
      | Inr rawOpt \<Rightarrow>
          (let rawText = (case rawOpt of None \<Rightarrow> [] | Some r \<Rightarrow> r) in
           case tryFormat rt cache rawText val chainId contextToken of
             Inl e \<Rightarrow> Inr \<lparr>formatted = ''Error formatting value'', raw = rawText\<rparr>
           | Inr result \<Rightarrow> Inr result))"
| "tryFormat rt cache rawText val chainId contextToken =
     (if val = JNull \<or> val = JUndefined then Inr \<lparr>formatted = ''null'', raw = ''null''\<rparr>
      else if isBigNumberLike val then
        (case formatTokenAmount rt cache val contextToken chainId of
           Inl e \<Rightarrow> Inl e
         | Inr text \<Rightarrow> Inr \<lparr>formatted = text, raw = rawText\<rparr>)
      else case val of
        JArr items \<Rightarrow>
          if items = [] then Inr \<lparr>formatted = ''[]'', raw = ''[]''\<rparr>
          else if list_all isNamedField items then
            (case formatItems rt cache items chainId of
               Inl e \<Rightarrow> Inl e
             | Inr parts \<Rightarrow> Inr \<lparr>formatted = join newline parts, raw = rawText\<rparr>)
          else if list_all isAddressText items then
            (case formatV2Path rt cache items chainId of
               Inl e \<Rightarrow> Inl e
             | Inr pathDesc \<Rightarrow> Inr \<lparr>formatted = pathDesc, raw = rawText\<rparr>)
          else if list_all isV3Hop items then
            (case formatV3Path rt cache items chainId of
               Inl e \<Rightarrow> Inl e
             | Inr pathDesc \<Rightarrow> Inr \<lparr>formatted = pathDesc, raw = rawText\<rparr>)
          else if list_all isV4Hop items then
            (case formatV4Path rt cache items chainId of
               Inl e \<Rightarrow> Inl e
             | Inr pathDesc \<Rightarrow> Inr \<lparr>formatted = pathDesc, raw = rawText\<rparr>)
          else Inr \<lparr>formatted = ''Array with '' @ showNat (length items) @ '' items'', raw = rawText\<rparr>
      | JObj kvs \<Rightarrow>
          if hasKey ''currencyIn'' val \<or> hasKey ''currencyOut'' val \<or> hasKey ''path'' val
          then Inr \<lparr>formatted = formatSwapObject rt cache val chainId, raw = rawText\<rparr>
          else Inr \<lparr>formatted = ''Object'', raw = rawText\<rparr>
      | JStr s \<Rightarrow>
          if take 2 s = ''0x'' \<and> length s = 42 then
            (case resolveToken (checksum rt) cache s (orUndefined chainId) of
               Some tokenInfo \<Rightarrow>
                 Inr \<lparr>formatted = symbol tokenInfo @ '' ('' @ sliceFirst6 s @ ''...'' @ sliceLast4 s @ '')'',
                      raw = s\<rparr>
             | None \<Rightarrow> Inr \<lparr>formatted = sliceFirst6 s @ ''...'' @ sliceLast4 s, raw = s\<rparr>)
          else Inr \<lparr>formatted = s, raw = s\<rparr>
      | _ \<Rightarrow> Inr \<lparr>formatted = jsToString val, raw = jsToString val\<rparr>)"
| "formatItems rt cache [] chainId = Inr []"
| "formatItems rt cache (item # rest) chainId =
     (case formatValueEnhanced rt cache (propOf item ''name'') (propOf item ''value'')
             chainId JUndefined of
        Inl e \<Rightarrow> Inl e
      | Inr itemResult \<Rightarrow>
          (case formatItems rt cache rest chainId of
             Inl e \<Rightarrow> Inl e
           | Inr parts \<Rightarrow>
               Inr ((jsToString (propOf item ''name'') @ '': '' @ formatted itemResult) # parts)))"
  by pat_completeness auto

termination
  by (relation "measure (\<lambda>x. case x of
        Inl (_, _, _, v, _, _) \<Rightarrow> 3 * size v + 2
      | Inr (Inl (_, _, _, v, _, _)) \<Rightarrow> 3 * size v + 1
      | Inr (Inr (_, _, items, _)) \<Rightarrow> 3 * size_list size items)")
     (auto simp: le_imp_less_Suc [OF trans_le_add1 [OF mult_le_mono2 [OF size_propOf]]])

declare formatValueEnhanced.simps [simp del] tryFormat.simps [simp del]

section \<open>The earlier revision of \<open>formatTokenAmount\<close>\<close>

text \<open>
  The repository holds two revisions of the formatter. The functions above are those of
  the current one (\<open>src/unnamed/part_003\<close>). In the earlier one
  (\<open>src/src/utils/enhancedFormatter.ts\<close>) \<open>formatTokenAmount\<close> has neither of the two
  tests for the full-balance sentinel and takes no network: it calls \<open>resolveToken\<close> with
  the address alone. The rest of the function is the same.
\<close>

definition convertAmount_earlier :: "jsval \<Rightarrow> conversion" where
  "convertAmount_earlier amount =
     (if isBigNumberLike amount then
        (case bigNumberToBigInt amount of Inl e \<Rightarrow> Throw e | Inr n \<Rightarrow> Amount (JBigInt n))
      else case amount of
        JStr s \<Rightarrow> (case toBigInt (JStr s) of Inl e \<Rightarrow> Return s | Inr n \<Rightarrow> Amount (JBigInt n))
      | _ \<Rightarrow> Amount amount)"

definition formatTokenAmount_earlier ::
  "runtime \<Rightarrow> tokenCache \<Rightarrow> jsval \<Rightarrow> jsval \<Rightarrow> error + string" where
  "formatTokenAmount_earlier rt cache amount tokenAddress =
     (case convertAmount_earlier amount of
        Return s \<Rightarrow> Inr s
      | Throw e \<Rightarrow> Inl e
      | Amount amountBigInt \<Rightarrow>
          bindE (if truthy tokenAddress
                 then resolveTokenAny (checksum rt) cache tokenAddress None
                 else Inr None)
            (\<lambda>tokenInfo. case tokenInfo of
               Some info \<Rightarrow>
                 bindE (formatUnits amountBigInt (decimals info))
                   (\<lambda>formatted. Inr (displayAmount formatted @ '' '' @ symbol info))
             | None \<Rightarrow>
                 bindE (formatUnits amountBigInt 18)
                   (\<lambda>formatted. Inr (formatted @ '' tokens''))))"

text \<open>The two forms of the full-balance sentinel that the current revision tests for.\<close>

definition isSentinel :: "jsval \<Rightarrow> bool" where
  "isSentinel v =
     (v = JStr CONTRACT_BALANCE \<or> (isBigNumberLike v \<and> hexOf v = JStr CONTRACT_BALANCE))"

text \<open>
  \<open>formatSwapObject\<close> of the earlier revision. Its calls of \<open>resolveToken\<close> have no
  network, its \<open>formatPath\<close> is the \<open>formatV4Path\<close> of the current revision without
  network, and the token of \<open>amountOut\<close> and \<open>amountOutMinimum\<close> is \<open>obj.currencyOut\<close>.
\<close>

definition formatPath :: "runtime \<Rightarrow> tokenCache \<Rightarrow> jsval list \<Rightarrow> error + string" where
  "formatPath rt cache path = formatV4Path rt cache path None"

definition amountLine_earlier ::
  "runtime \<Rightarrow> tokenCache \<Rightarrow> string \<Rightarrow> jsval \<Rightarrow> jsval \<Rightarrow> error + string list" where
  "amountLine_earlier rt cache label amount tokenAddress =
     (if truthy amount
      then bindE (formatTokenAmount_earlier rt cache amount tokenAddress)
             (\<lambda>formatted. Inr [label @ formatted])
      else Inr [])"

definition swapParts_earlier :: "runtime \<Rightarrow> tokenCache \<Rightarrow> jsval \<Rightarrow> error + string list" where
  "swapParts_earlier rt cache obj =
     (let path = propOf obj ''path'';
          currencyIn = propOf obj ''currencyIn'';
          currencyOut = propOf obj ''currencyOut''
      in
      bindE (if truthy currencyIn
             then bindE (currencyLabel rt cache None currencyIn) (\<lambda>l. Inr [''From: '' @ l])
             else Inr [])
        (\<lambda>fromLine.
      bindE (if truthy currencyOut
             then bindE (currencyLabel rt cache None currencyOut) (\<lambda>l. Inr [''To: '' @ l])
             else Inr [])
        (\<lambda>toLine.
      bindE (amountLine_earlier rt cache ''Amount In: '' (propOf obj ''amountIn'') currencyIn)
        (\<lambda>inLine.
      bindE (amountLine_earlier rt cache ''Amount Out: '' (propOf obj ''amountOut'') currencyOut)
        (\<lambda>outLine.
      bindE (amountLine_earlier rt cache ''Min Out: '' (propOf obj ''amountOutMinimum'') currencyOut)
        (\<lambda>minLine.
      bindE (case path of
               JArr hops \<Rightarrow>
                 bindE (formatPath rt cache hops)
                   (\<lambda>pathDesc. Inr (if pathDesc = [] then [] else [''Path: '' @ pathDesc]))
             | _ \<Rightarrow> Inr [])
        (\<lambda>pathLine.
      Inr (fromLine @ toLine @ inLine @ outLine @ minLine @ pathLine))))))))"

definition formatSwapObject_earlier :: "runtime \<Rightarrow> tokenCache \<Rightarrow> jsval \<Rightarrow> string" where
  "formatSwapObject_earlier rt cache obj =
     (case swapParts_earlier rt cache obj of
        Inl e \<Rightarrow> ''Error formatting swap details''
      | Inr parts \<Rightarrow> if parts = [] then ''Swap Details'' else join newline parts)"
section \<open>Sample data\<close>

text \<open>
  The addresses of the samples are in lower case and no fee of theirs is a string, so the
  two parameters are not consulted on them; in the sample runtime no address carries a
  checksum and no string is a number.
\<close>

definition sampleRuntime :: runtime where
  "sampleRuntime = \<lparr>checksum = (\<lambda>a. False), quotient = (\<lambda>s. ''NaN'')\<rparr>"

definition usdcAddress :: string where
  "usdcAddress = ''0xa0b86991c6218b36c1d19d4a2e9eb0ce3606eb48''"

definition usdcMainnet :: TokenInfo where
  "usdcMainnet = \<lparr>symbol = ''USDC'', decimals = 6, logo = [], contract = Some usdcAddress,
                   priceInUsd = 1\<rparr>"

definition bridgedUsdc :: TokenInfo where
  "bridgedUsdc = \<lparr>symbol = ''USDC.e'', decimals = 6, logo = [], contract = Some usdcAddress,
                   priceInUsd = 1\<rparr>"

text \<open>A response of the metadata source in which a token is listed under the all-zero
  address, and a network has the empty chain id.\<close>

definition wrappedNative :: LayerSwapToken where
  "wrappedNative = \<lparr>t_symbol = ''WETH'', t_contract = Some zeroAddress, t_decimals = 8,
                     t_logo = [], price_in_usd = 0\<rparr>"

definition otherNative :: LayerSwapToken where
  "otherNative = \<lparr>t_symbol = ''OPW'', t_contract = Some zeroAddress, t_decimals = 8,
                   t_logo = [], price_in_usd = 0\<rparr>"

definition usdcListed :: LayerSwapToken where
  "usdcListed = \<lparr>t_symbol = ''USDC'', t_contract = Some usdcAddress, t_decimals = 6,
                  t_logo = [], price_in_usd = 1\<rparr>"

definition usdcBridgedListed :: LayerSwapToken where
  "usdcBridgedListed = \<lparr>t_symbol = ''USDC.e'', t_contract = Some usdcAddress, t_decimals = 6,
                         t_logo = [], price_in_usd = 1\<rparr>"

definition sampleNetworks :: "LayerSwapNetwork list" where
  "sampleNetworks =
     [\<lparr>chain_id = ''1'', tokens = [wrappedNative]\<rparr>,
      \<lparr>chain_id = [], tokens = [usdcListed]\<rparr>,
      \<lparr>chain_id = ''10'', tokens = [otherNative, usdcBridgedListed]\<rparr>]"

text \<open>The full-balance sentinel as the record of the decoder, in its serialized and in
  its legacy form.\<close>

definition sentinelRecord :: jsval where
  "sentinelRecord = JObj [(''type'', JStr ''BigNumber''), (''hex'', JStr CONTRACT_BALANCE)]"

definition legacyRecord :: jsval where
  "legacyRecord = JObj [(''_hex'', JStr CONTRACT_BALANCE), (''_isBigNumber'', JBool True)]"

definition sentinelRaw :: string where
  "sentinelRaw = ''{'' @ newline @ ''  '' @ quoteJSONString ''type'' @ '': ''
       @ quoteJSONString ''BigNumber'' @ '','' @ newline @ ''  '' @ quoteJSONString ''hex'' @ '': ''
       @ quoteJSONString CONTRACT_BALANCE @ newline @ ''}''"

text \<open>What \<open>raw\<close> is for a value whose serialization is \<open>rawOpt\<close>.\<close>

definition expectedRaw :: "jsval \<Rightarrow> string option \<Rightarrow> string" where
  "expectedRaw v rawOpt =
     (case v of
        JStr s \<Rightarrow> s
      | JUndefined \<Rightarrow> ''null''
      | JBool b \<Rightarrow> jsToString v
      | JNum n \<Rightarrow> jsToString v
      | _ \<Rightarrow> (case rawOpt of None \<Rightarrow> [] | Some t \<Rightarrow> t))"

text \<open>An address path of one hop, and its serialization.\<close>

definition addressPath :: jsval where
  "addressPath = JArr [JStr usdcAddress]"

definition addressPathRaw :: string where
  "addressPathRaw = ''['' @ newline @ ''  '' @ quoteJSONString usdcAddress @ newline @ '']''"


text \<open>A swap descriptor whose input amount is the full-balance sentinel.\<close>

definition sentinelSwap :: jsval where
  "sentinelSwap =
     JObj [(''currencyIn'', JStr usdcAddress), (''currencyOut'', JStr zeroAddress),
           (''amountIn'', JStr CONTRACT_BALANCE),
           (''amountOutMinimum'', JStr ''1500000000000000000'')]"

text \<open>A list of one named field whose value is a native bigint.\<close>

definition bigintFields :: "jsval list" where
  "bigintFields = [JObj [(''name'', JStr ''amountIn''), (''value'', JBigInt 1000000)]]"

text \<open>The amount of one and a half ether as the record of the decoder.\<close>

definition amountRecord :: jsval where
  "amountRecord = JObj [(''type'', JStr ''BigNumber''), (''hex'', JStr ''0x14d1120d7b160000'')]"

definition amountRecordRaw :: string where
  "amountRecordRaw = ''{'' @ newline @ ''  '' @ quoteJSONString ''type'' @ '': ''
       @ quoteJSONString ''BigNumber'' @ '','' @ newline @ ''  '' @ quoteJSONString ''hex'' @ '': ''
       @ quoteJSONString ''0x14d1120d7b160000'' @ newline @ ''}''"

text \<open>A swap descriptor without output currency whose path leads to a token of six
  decimals, and the same with an explicit output currency of eighteen.\<close>

definition pathSwap :: jsval where
  "pathSwap =
     JObj [(''currencyIn'', JStr zeroAddress), (''amountOut'', JStr ''1500000''),
           (''amountOutMinimum'', JStr ''1234567''),
           (''path'', JArr [JObj [(''intermediateCurrency'', JStr usdcAddress)]])]"

definition explicitSwap :: jsval where
  "explicitSwap =
     JObj [(''currencyIn'', JStr usdcAddress), (''currencyOut'', JStr zeroAddress),
           (''amountOut'', JStr ''1500000000000000000''),
           (''path'', JArr [JObj [(''intermediateCurrency'', JStr usdcAddress)]])]"

text \<open>Whether a native bigint occurs in a value: then, and only then, the serialization
  raises.\<close>

fun containsBigInt :: "jsval \<Rightarrow> bool"
  and anyBigInt :: "jsval list \<Rightarrow> bool"
  and anyBigIntProp :: "(string \<times> jsval) list \<Rightarrow> bool" where
  "containsBigInt (JBigInt n) = True"
| "containsBigInt (JArr xs) = anyBigInt xs"
| "containsBigInt (JObj kvs) = anyBigIntProp kvs"
| "containsBigInt v = False"
| "anyBigInt [] = False"
| "anyBigInt (x # xs) = (containsBigInt x \<or> anyBigInt xs)"
| "anyBigIntProp [] = False"
| "anyBigIntProp ((k, v) # kvs) = (containsBigInt v \<or> anyBigIntProp kvs)"

text \<open>The line of one named field, and the text shown when the body of the \<open>try\<close> has
  raised.\<close>

definition fieldLine :: "runtime \<Rightarrow> tokenCache \<Rightarrow> string option \<Rightarrow> jsval \<Rightarrow> string" where
  "fieldLine rt cache chainId item =
     jsToString (propOf item ''name'') @ '': ''
     @ (case formatValueEnhanced rt cache (propOf item ''name'') (propOf item ''value'')
               chainId JUndefined of
          Inl e \<Rightarrow> []
        | Inr itemResult \<Rightarrow> formatted itemResult)"

definition orErrorText :: "error + string \<Rightarrow> string" where
  "orErrorText res = (case res of Inl e \<Rightarrow> ''Error formatting value'' | Inr text \<Rightarrow> text)"

text \<open>A list of named fields whose elements are fee-tier hops as well.\<close>

definition overlappingFields :: "jsval list" where
  "overlappingFields =
     [JObj [(''name'', JStr ''token''), (''value'', JStr usdcAddress),
            (''tokenIn'', JStr usdcAddress), (''tokenOut'', JStr zeroAddress)],
      JObj [(''name'', JStr ''fee''), (''value'', JNum (Integral 3000)),
            (''tokenIn'', JStr zeroAddress), (''tokenOut'', JStr usdcAddress)]]"

definition overlappingRaw :: string where
  "overlappingRaw =
     ''['' @ newline
     @ ''  {'' @ newline
     @ ''    '' @ quoteJSONString ''name'' @ '': '' @ quoteJSONString ''token'' @ '','' @ newline
     @ ''    '' @ quoteJSONString ''value'' @ '': '' @ quoteJSONString usdcAddress @ '','' @ newline
     @ ''    '' @ quoteJSONString ''tokenIn'' @ '': '' @ quoteJSONString usdcAddress @ '','' @ newline
     @ ''    '' @ quoteJSONString ''tokenOut'' @ '': '' @ quoteJSONString zeroAddress @ newline
     @ ''  },'' @ newline
     @ ''  {'' @ newline
     @ ''    '' @ quoteJSONString ''name'' @ '': '' @ quoteJSONString ''fee'' @ '','' @ newline
     @ ''    '' @ quoteJSONString ''value'' @ '': 3000,'' @ newline
     @ ''    '' @ quoteJSONString ''tokenIn'' @ '': '' @ quoteJSONString zeroAddress @ '','' @ newline
     @ ''    '' @ quoteJSONString ''tokenOut'' @ '': '' @ quoteJSONString usdcAddress @ newline
     @ ''  }'' @ newline
     @ '']''"

text \<open>The decimal numeral of \<open>r\<close> in exactly \<open>d\<close> digits, with zeros on the left.\<close>

fun fixedDigits :: "nat \<Rightarrow> nat \<Rightarrow> string" where
  "fixedDigits 0 r = []"
| "fixedDigits (Suc d) r = fixedDigits d (r div 10) @ [digitChar (r mod 10)]"

text \<open>
  The scaling in the words of the specification. Of \<open>r / 10^d\<close>, with \<open>r < 10^d\<close>,
  \<open>fractionDigits d r\<close> is the number of digits after the point, not counting zeros at
  the end. \<open>scaledText limit n d\<close> is the numeral of \<open>n / 10^d\<close>: the integer part
  \<open>n div 10^d\<close>, a point, and the first \<open>k\<close> fraction digits, that is the numeral of
  \<open>(n mod 10^d) div 10^(d - k)\<close> in \<open>k\<close> digits, where \<open>k\<close> is the number of fraction
  digits, but at most \<open>limit\<close>: the fraction is cut, not rounded.
\<close>

fun fractionDigits :: "nat \<Rightarrow> nat \<Rightarrow> nat" where
  "fractionDigits 0 r = 0"
| "fractionDigits (Suc d) r = (if r mod 10 = 0 then fractionDigits d (r div 10) else Suc d)"

definition scaledText :: "nat \<Rightarrow> nat \<Rightarrow> nat \<Rightarrow> string" where
  "scaledText limit n d =
     (let k = min limit (fractionDigits d (n mod 10 ^ d))
      in showNat (n div 10 ^ d)
         @ (if k = 0 then [] else ''.'' @ fixedDigits k (n mod 10 ^ d div 10 ^ (d - k))))"

definition signText :: "int \<Rightarrow> string" where
  "signText n = (if n < 0 then ''-'' else [])"

definition decimalDigits :: "char set" where
  "decimalDigits = set ''0123456789''"

text \<open>The display text of a result.\<close>

definition formatted_of :: "error + formatResult \<Rightarrow> error + string" where
  "formatted_of res = map_sum id formatted res"

text \<open>
  The rendering of a fee-tier path in the words of the specification. A hop is the
  object \<open>{tokenIn, tokenOut, fee}\<close> with two address texts and a numeric fee;
  \<open>symbolOf\<close> is the symbol of a token that resolves, and empty otherwise; \<open>hopsText\<close> is
  what the hops add after the symbol of the first input token: for each hop a space, the
  arrow, the fee in percent between parentheses when the fee is not zero, a space, and
  the symbol of the output token.
\<close>

definition feeTierHop :: "string \<Rightarrow> string \<Rightarrow> 49 word \<Rightarrow> jsval" where
  "feeTierHop a b w =
     JObj [(''tokenIn'', JStr a), (''tokenOut'', JStr b), (''fee'', JNum (Integral w))]"

definition symbolOf :: "runtime \<Rightarrow> tokenCache \<Rightarrow> string option \<Rightarrow> string \<Rightarrow> string" where
  "symbolOf rt cache chainId a =
     (case resolveToken (checksum rt) cache a (orUndefined chainId) of
        Some token \<Rightarrow> symbol token
      | None \<Rightarrow> [])"

fun hopsText ::
  "runtime \<Rightarrow> tokenCache \<Rightarrow> string option \<Rightarrow> (string \<times> string \<times> 49 word) list \<Rightarrow> string" where
  "hopsText rt cache chainId [] = []"
| "hopsText rt cache chainId ((a, b, w) # hops) =
     '' '' @ arrow @ (if w = 0 then [] else '' ('' @ percentText (sint w) @ ''%)'')
     @ '' '' @ symbolOf rt cache chainId b @ hopsText rt cache chainId hops"

definition feeTierPath :: "(string \<times> string \<times> 49 word) list \<Rightarrow> jsval list" where
  "feeTierPath hops = map (\<lambda>(a, b, w). feeTierHop a b w) hops"

definition resolvable ::
  "runtime \<Rightarrow> tokenCache \<Rightarrow> string option \<Rightarrow> (string \<times> string \<times> 49 word) list \<Rightarrow> bool" where
  "resolvable rt cache chainId hops =
     list_all (\<lambda>(a, b, w). symbolOf rt cache chainId a \<noteq> [] \<and> symbolOf rt cache chainId b \<noteq> []) hops"

text \<open>
  The output currency of a swap descriptor in the words of the specification: the
  explicit \<open>currencyOut\<close> when there is one, and otherwise the intermediate currency of
  the first hop of the path.
\<close>

definition outputCurrency :: "jsval \<Rightarrow> jsval" where
  "outputCurrency obj =
     (if truthy (propOf obj ''currencyOut'') then propOf obj ''currencyOut''
      else case propOf obj ''path'' of
             JArr (hop # rest) \<Rightarrow> propOf hop ''intermediateCurrency''
           | _ \<Rightarrow> JUndefined)"

section \<open>Evaluation\<close>

text \<open>The defining equations, for the evaluation of the functions on given values.\<close>

lemmas evals =
  showInt_def showNat_def showNatAcc.simps digitChar_def jsonStringify_def newline_def
  quoteJSONString_def quoteChar_def hexDigit_def bindE_def isBigNumberLike_def
  CONTRACT_BALANCE_def balanceMarker_def hexOf_def orElse_def bigNumberToBigInt_def
  convertAmount_def formatTokenAmount_def symbolOr_def percentText_def percentOf_def v2Token_def
  formatV2Path_def v3Step_def formatV3Path_def v4Step_def formatV4Path_def currencyLabel_def
  amountLine_def swapParts_def formatSwapObject_def isNamedField_def isV3Hop_def isV4Hop_def
  formatUnits_def formatUnitsText_def toStringMethod_def padStart_def stripTrailingZeros_def
  wholePart_def decimalPart_def displayAmount_def stringToBigInt_def trim_def isSpace_def
  parseDigits_def digitVal_def sliceFirst6_def sliceLast4_def resolveToken_def isAddress_def
  addressRegex_def isHexChar_def toLowerCase_def lowerChar_def zeroAddress_def nativeToken_def
  orUndefined_def arrow_def formatPath_def amountLine_earlier_def swapParts_earlier_def
  formatSwapObject_earlier_def formatTokenAmount_earlier_def convertAmount_earlier_def formatValueEnhanced.simps tryFormat.simps tokenInfoOf_def cacheToken_def

lemmas sampleData =
  sampleNetworks_def wrappedNative_def otherNative_def usdcListed_def usdcBridgedListed_def
  usdcAddress_def sampleRuntime_def

section \<open>Decimal numerals\<close>

lemma digitChar_cases:
  "(d::nat) < 10 \<Longrightarrow> d = 0 \<or> d = 1 \<or> d = 2 \<or> d = 3 \<or> d = 4 \<or> d = 5 \<or> d = 6 \<or> d = 7 \<or> d = 8 \<or> d = 9"
  by arith

lemma digitVal_digitChar: "d < 10 \<Longrightarrow> digitVal (digitChar d) = Some d"
  using digitChar_cases [of d] by (auto simp: digitVal_def digitChar_def)

lemma digitChar_is_digit: "d < 10 \<Longrightarrow> digitChar d \<in> decimalDigits"
  using digitChar_cases [of d] by (auto simp: digitChar_def decimalDigits_def)

lemma not_decimalDigits:
  "CHR ''.'' \<notin> decimalDigits" "CHR ''-'' \<notin> decimalDigits" "CHR ''+'' \<notin> decimalDigits"
  "CHR ''x'' \<notin> decimalDigits" "CHR ''X'' \<notin> decimalDigits" "CHR ''o'' \<notin> decimalDigits"
  "CHR ''O'' \<notin> decimalDigits" "CHR ''b'' \<notin> decimalDigits" "CHR ''B'' \<notin> decimalDigits"
  by (simp_all add: decimalDigits_def)

lemma digit_not_space: "c \<in> decimalDigits \<Longrightarrow> \<not> isSpace c"
  by (auto simp: isSpace_def decimalDigits_def)

lemma digitChar_0: "digitChar 0 = CHR ''0''"
  by (simp add: digitChar_def)

lemma digitChar_eq_0: "d < 10 \<Longrightarrow> (digitChar d = CHR ''0'') = (d = 0)"
  using digitChar_cases [of d] by (auto simp: digitChar_def)

lemma showNatAcc_append: "showNatAcc n acc = showNatAcc n [] @ acc"
proof (induction n arbitrary: acc rule: less_induct)
  case (less n)
  show ?case
  proof (cases "n < 10")
    case True
    then show ?thesis by (simp add: showNatAcc.simps)
  next
    case False
    then have lt: "n div 10 < n" by simp
    have "showNatAcc n acc = showNatAcc (n div 10) (digitChar (n mod 10) # acc)"
      using False by (simp add: showNatAcc.simps)
    also have "\<dots> = showNatAcc (n div 10) [] @ digitChar (n mod 10) # acc"
      by (rule less [OF lt])
    finally have a: "showNatAcc n acc = showNatAcc (n div 10) [] @ digitChar (n mod 10) # acc" .
    have "showNatAcc n [] = showNatAcc (n div 10) [digitChar (n mod 10)]"
      using False by (simp add: showNatAcc.simps)
    also have "\<dots> = showNatAcc (n div 10) [] @ [digitChar (n mod 10)]"
      by (rule less [OF lt])
    finally show ?thesis using a by simp
  qed
qed

lemma showNat_small: "n < 10 \<Longrightarrow> showNat n = [digitChar n]"
  by (simp add: showNat_def showNatAcc.simps)

lemma showNat_step: "10 \<le> n \<Longrightarrow> showNat n = showNat (n div 10) @ [digitChar (n mod 10)]"
  unfolding showNat_def
  by (subst showNatAcc.simps) (simp add: showNatAcc_append [of "n div 10" "[digitChar (n mod 10)]"])

lemma showNat_fixed:
  "n < 10 ^ d \<Longrightarrow> 0 < d \<Longrightarrow> padStart d (CHR ''0'') (showNat n) = fixedDigits d n"
proof (induction d arbitrary: n)
  case 0
  then show ?case by simp
next
  case (Suc d)
  show ?case
  proof (cases "n < 10")
    case True
    have z: "fixedDigits k 0 = replicate k (CHR ''0'')" for k
      by (induction k) (simp_all add: digitChar_0 replicate_append_same)
    from True show ?thesis
      by (simp add: showNat_small padStart_def z)
  next
    case False
    then have d: "0 < d" using Suc.prems by (cases d) auto
    have lt: "n div 10 < 10 ^ d" using Suc.prems by (simp add: less_mult_imp_div_less mult.commute)
    have "padStart (Suc d) (CHR ''0'') (showNat n)
            = padStart d (CHR ''0'') (showNat (n div 10)) @ [digitChar (n mod 10)]"
      using False by (simp add: showNat_step padStart_def)
    with Suc.IH [OF lt d] show ?thesis by simp
  qed
qed

lemma length_fixedDigits [simp]: "length (fixedDigits d r) = d"
  by (induction d arbitrary: r) simp_all

lemma showNat_split:
  "10 ^ d \<le> n \<Longrightarrow> showNat n = showNat (n div 10 ^ d) @ fixedDigits d (n mod 10 ^ d)"
proof (induction d arbitrary: n)
  case 0
  then show ?case by simp
next
  case (Suc d)
  then have ge: "10 \<le> n" "10 ^ d \<le> n div 10"
    by (auto simp: less_eq_div_iff_mult_less_eq intro: order_trans [of 10 "10 * 10 ^ d"])
  have "showNat n = showNat (n div 10) @ [digitChar (n mod 10)]"
    using ge(1) by (rule showNat_step)
  also have "showNat (n div 10) = showNat (n div 10 div 10 ^ d) @ fixedDigits d (n div 10 mod 10 ^ d)"
    using ge(2) by (rule Suc.IH)
  finally show ?case
    by (simp add: div_mult2_eq mod_mult2_eq mult.commute)
qed

lemma showNat_nonempty: "showNat n \<noteq> []"
  by (cases "n < 10") (simp_all add: showNat_small showNat_step)

lemma showNat_digits: "set (showNat n) \<subseteq> decimalDigits"
proof (induction n rule: less_induct)
  case (less n)
  show ?case
  proof (cases "n < 10")
    case True
    then show ?thesis using digitChar_is_digit [of n] by (simp add: showNat_small)
  next
    case False
    then have "n div 10 < n" by simp
    from less [OF this] False digitChar_is_digit [of "n mod 10"] show ?thesis
      by (simp add: showNat_step)
  qed
qed

lemma fixedDigits_digits: "set (fixedDigits d r) \<subseteq> decimalDigits"
proof (induction d arbitrary: r)
  case (Suc d)
  from Suc [of "r div 10"] digitChar_is_digit [of "r mod 10"] show ?case by simp
qed simp

lemma fractionDigits_le: "fractionDigits d r \<le> d"
  by (induction d arbitrary: r) (auto intro: le_SucI)

lemma stripTrailingZeros_snoc:
  "stripTrailingZeros (xs @ [c]) = (if c = CHR ''0'' then stripTrailingZeros xs else xs @ [c])"
  by (simp add: stripTrailingZeros_def)

lemma stripTrailingZeros_fixed:
  "stripTrailingZeros (fixedDigits d r)
     = fixedDigits (fractionDigits d r) (r div 10 ^ (d - fractionDigits d r))"
proof (induction d arbitrary: r)
  case 0
  then show ?case by (simp add: stripTrailingZeros_def)
next
  case (Suc d)
  have m: "r mod 10 < 10" by simp
  show ?case
  proof (cases "r mod 10 = 0")
    case True
    have "Suc d - fractionDigits d (r div 10) = Suc (d - fractionDigits d (r div 10))"
      using fractionDigits_le [of d "r div 10"] by simp
    with True Suc [of "r div 10"] show ?thesis
      by (simp add: stripTrailingZeros_snoc digitChar_0 div_mult2_eq)
  next
    case False
    with digitChar_eq_0 [OF m] show ?thesis
      by (simp add: stripTrailingZeros_snoc)
  qed
qed

lemma take_fixedDigits:
  "k \<le> d \<Longrightarrow> take k (fixedDigits d r) = fixedDigits k (r div 10 ^ (d - k))"
proof (induction d arbitrary: r)
  case 0
  then show ?case by simp
next
  case (Suc d)
  show ?case
  proof (cases "k = Suc d")
    case True
    then show ?thesis by simp
  next
    case False
    with Suc.prems have le: "k \<le> d" by simp
    then have "Suc d - k = Suc (d - k)" by simp
    with Suc.IH [OF le, of "r div 10"] le show ?thesis
      by (simp add: div_mult2_eq)
  qed
qed

lemma first_not_minus: "take 1 (showNat n) \<noteq> ''-''"
proof -
  obtain c cs where s: "showNat n = c # cs"
    using showNat_nonempty [of n] by (cases "showNat n") auto
  with showNat_digits [of n] have "c \<in> decimalDigits" by auto
  with s not_decimalDigits(2) show ?thesis by auto
qed

lemma showNat_0: "showNat 0 = ''0''"
  by (simp add: showNat_small digitChar_0)

lemma formatUnitsText_showNat:
  "formatUnitsText (showNat n) d
     = showNat (n div 10 ^ d)
       @ (if stripTrailingZeros (fixedDigits d (n mod 10 ^ d)) = [] then []
          else ''.'' @ stripTrailingZeros (fixedDigits d (n mod 10 ^ d)))"
proof (cases "10 ^ d \<le> n")
  case True
  have s: "showNat n = showNat (n div 10 ^ d) @ fixedDigits d (n mod 10 ^ d)"
    using True by (rule showNat_split)
  have p: "padStart d (CHR ''0'') (showNat n) = showNat n"
    by (simp add: padStart_def s)
  show ?thesis
    using first_not_minus [of n] showNat_nonempty [of "n div 10 ^ d"]
    unfolding formatUnitsText_def Let_def
    by (simp add: p) (simp add: s)
next
  case False
  then have lt: "n < 10 ^ d" by simp
  show ?thesis
  proof (cases "d = 0")
    case True
    with lt have "n = 0" by simp
    with True first_not_minus [of 0] show ?thesis
      by (simp add: formatUnitsText_def padStart_def showNat_0 stripTrailingZeros_def)
  next
    case False
    then have d: "0 < d" by simp
    have p: "padStart d (CHR ''0'') (showNat n) = fixedDigits d n"
      using lt d by (rule showNat_fixed)
    show ?thesis
      using first_not_minus [of n] lt
      unfolding formatUnitsText_def Let_def
      by (simp add: p showNat_0)
  qed
qed

lemma takeWhile_digits:
  "set xs \<subseteq> decimalDigits \<Longrightarrow> takeWhile (\<lambda>c. c \<noteq> CHR ''.'') (xs @ ys) = xs @ takeWhile (\<lambda>c. c \<noteq> CHR ''.'') ys"
  "set xs \<subseteq> decimalDigits \<Longrightarrow> dropWhile (\<lambda>c. c \<noteq> CHR ''.'') (xs @ ys) = dropWhile (\<lambda>c. c \<noteq> CHR ''.'') ys"
  using not_decimalDigits(1) by (induction xs) auto

lemma displayAmount_digits:
  assumes "set w \<subseteq> decimalDigits" and "set f \<subseteq> decimalDigits"
  shows "displayAmount (w @ (if f = [] then [] else ''.'' @ f))
           = w @ (if take 6 f = [] then [] else ''.'' @ take 6 f)"
proof -
  have tw: "takeWhile (\<lambda>c. c \<noteq> CHR ''.'') f = f"
    using assms(2) not_decimalDigits(1) by (auto simp: takeWhile_eq_all_conv)
  show ?thesis
    by (simp add: displayAmount_def wholePart_def decimalPart_def
          takeWhile_digits [OF assms(1)] tw)
qed

lemma fixedDigits_empty: "(fixedDigits k m = []) = (k = 0)"
  by (cases k) simp_all

lemma take6_fraction:
  "take 6 (fixedDigits (fractionDigits d r) (r div 10 ^ (d - fractionDigits d r)))
     = fixedDigits (min 6 (fractionDigits d r)) (r div 10 ^ (d - min 6 (fractionDigits d r)))"
proof (cases "6 \<le> fractionDigits d r")
  case True
  have "(d - fractionDigits d r) + (fractionDigits d r - 6) = d - 6"
    using True fractionDigits_le [of d r] by simp
  then have "r div 10 ^ (d - fractionDigits d r) div 10 ^ (fractionDigits d r - 6)
               = r div 10 ^ (d - 6)"
    by (simp add: div_mult2_eq [symmetric] power_add [symmetric])
  with True take_fixedDigits [OF True, of "r div 10 ^ (d - fractionDigits d r)"] show ?thesis
    by (simp add: min_def)
next
  case False
  then show ?thesis by (simp add: min_def)
qed

lemma displayAmount_scaled:
  "displayAmount (formatUnitsText (showNat n) d) = scaledText 6 n d"
proof -
  let ?r = "n mod 10 ^ d"
  let ?k = "fractionDigits d ?r"
  let ?f = "fixedDigits ?k (?r div 10 ^ (d - ?k))"
  have "formatUnitsText (showNat n) d
          = showNat (n div 10 ^ d) @ (if ?f = [] then [] else ''.'' @ ?f)"
    by (simp only: formatUnitsText_showNat stripTrailingZeros_fixed)
  then have "displayAmount (formatUnitsText (showNat n) d)
          = showNat (n div 10 ^ d) @ (if take 6 ?f = [] then [] else ''.'' @ take 6 ?f)"
    using displayAmount_digits [OF showNat_digits fixedDigits_digits] by simp
  also have "\<dots> = scaledText 6 n d"
    unfolding take6_fraction by (simp add: scaledText_def Let_def fixedDigits_empty)
  finally show ?thesis .
qed

lemma formatUnitsText_exact:
  "formatUnitsText (showNat n) d = scaledText d n d"
  using fractionDigits_le [of d "n mod 10 ^ d"]
  by (simp add: formatUnitsText_showNat stripTrailingZeros_fixed fixedDigits_empty
        scaledText_def Let_def min_def)

lemma formatUnitsText_minus:
  "formatUnitsText (CHR ''-'' # showNat m) d = CHR ''-'' # formatUnitsText (showNat m) d"
  using first_not_minus [of m] by (simp add: formatUnitsText_def Let_def)

lemma displayAmount_minus: "displayAmount (CHR ''-'' # x) = CHR ''-'' # displayAmount x"
  by (simp add: displayAmount_def wholePart_def decimalPart_def Let_def)

lemma formatUnitsText_showInt:
  "formatUnitsText (showInt n) d = signText n @ scaledText d (nat \<bar>n\<bar>) d"
  by (simp add: showInt_def signText_def formatUnitsText_minus formatUnitsText_exact)

lemma displayAmount_showInt:
  "displayAmount (formatUnitsText (showInt n) d) = signText n @ scaledText 6 (nat \<bar>n\<bar>) d"
  by (simp add: showInt_def signText_def formatUnitsText_minus displayAmount_minus
        displayAmount_scaled)

lemma parseDigitsAcc_append:
  "parseDigitsAcc b acc (xs @ ys)
     = (case parseDigitsAcc b acc xs of None \<Rightarrow> None | Some a \<Rightarrow> parseDigitsAcc b a ys)"
  by (induction xs arbitrary: acc) (auto split: option.splits)

lemma parse_showNat: "parseDigitsAcc 10 0 (showNat n) = Some n"
proof (induction n rule: less_induct)
  case (less n)
  show ?case
  proof (cases "n < 10")
    case True
    then show ?thesis by (simp add: showNat_small digitVal_digitChar)
  next
    case False
    then have "n div 10 < n" by simp
    from less [OF this] False show ?thesis
      by (simp add: showNat_step parseDigitsAcc_append digitVal_digitChar)
  qed
qed

lemma trim_id:
  assumes "s \<noteq> []" and "\<not> isSpace (hd s)" and "\<not> isSpace (last s)"
  shows "trim s = s"
proof -
  have a: "dropWhile isSpace s = s"
    using assms(1,2) by (cases s) auto
  have "rev (butlast s @ [last s]) = last s # rev (butlast s)" by simp
  then have r: "rev s = last s # rev (butlast s)"
    by (simp only: append_butlast_last_id [OF assms(1)])
  have b: "dropWhile isSpace (rev s) = rev s"
    by (subst (1 2) r) (simp add: assms(3))
  show ?thesis by (simp add: trim_def a b)
qed

lemma showNat_ends:
  "hd (showNat n) \<in> decimalDigits" "last (showNat n) \<in> decimalDigits"
proof -
  have "hd (showNat n) \<in> set (showNat n)" "last (showNat n) \<in> set (showNat n)"
    using showNat_nonempty [of n] by simp_all
  then show "hd (showNat n) \<in> decimalDigits" "last (showNat n) \<in> decimalDigits"
    using showNat_digits [of n] by blast+
qed

lemma trim_showNat: "trim (showNat m) = showNat m"
proof (rule trim_id)
  show "showNat m \<noteq> []" by (rule showNat_nonempty)
  show "\<not> isSpace (hd (showNat m))" using showNat_ends(1) by (rule digit_not_space)
  show "\<not> isSpace (last (showNat m))" using showNat_ends(2) by (rule digit_not_space)
qed

lemma trim_showInt: "trim (showInt n) = showInt n"
proof (cases "n < 0")
  case True
  have a: "\<not> isSpace (CHR ''-'')" by (simp add: isSpace_def)
  have b: "\<not> isSpace (last (showNat (nat (- n))))"
    using showNat_ends(2) by (rule digit_not_space)
  have "trim (CHR ''-'' # showNat (nat (- n))) = CHR ''-'' # showNat (nat (- n))"
    using a b showNat_nonempty [of "nat (- n)"] by (intro trim_id) simp_all
  with True show ?thesis by (simp add: showInt_def)
next
  case False
  then show ?thesis by (simp add: showInt_def trim_showNat)
qed

lemma take2_neq:
  assumes "set t \<subseteq> S" and "c \<notin> S"
  shows "take 2 t \<noteq> [a, c]"
proof
  assume "take 2 t = [a, c]"
  then have "c \<in> set (take 2 t)" by simp
  then have "c \<in> set t" by (rule in_set_takeD)
  with assms show False by blast
qed

lemma take2_digits:
  assumes "set t \<subseteq> insert (CHR ''-'') decimalDigits"
  shows "take 2 t \<noteq> ''0x''" "take 2 t \<noteq> ''0X''" "take 2 t \<noteq> ''0o''" "take 2 t \<noteq> ''0O''"
    "take 2 t \<noteq> ''0b''" "take 2 t \<noteq> ''0B''"
  using not_decimalDigits by (auto intro!: take2_neq [OF assms])

lemma showInt_chars: "set (showInt n) \<subseteq> insert (CHR ''-'') decimalDigits"
proof (cases "n < 0")
  case True
  then show ?thesis using showNat_digits [of "nat (- n)"] by (simp add: showInt_def) blast
next
  case False
  then show ?thesis using showNat_digits [of "nat n"] by (simp add: showInt_def) blast
qed

lemma stringToBigInt_showInt: "stringToBigInt (showInt n) = Some n"
proof (cases "n < 0")
  case True
  have "hd (showInt n) = CHR ''-''" "tl (showInt n) = showNat (nat (- n))" "showInt n \<noteq> []"
    using True by (simp_all add: showInt_def)
  with True show ?thesis
    using take2_digits [OF showInt_chars, of n] showNat_nonempty [of "nat (- n)"]
    by (simp add: stringToBigInt_def trim_showInt Let_def parseDigits_def parse_showNat)
next
  case False
  have s: "showInt n = showNat (nat n)" using False by (simp add: showInt_def)
  have h: "hd (showNat (nat n)) \<noteq> CHR ''-''" "hd (showNat (nat n)) \<noteq> CHR ''+''"
    using showNat_ends(1) [of "nat n"] not_decimalDigits by auto
  from False show ?thesis
    using take2_digits [OF showInt_chars, of n] showNat_nonempty [of "nat n"] h
    by (simp add: stringToBigInt_def trim_showInt Let_def)
       (simp add: s parseDigits_def parse_showNat)
qed

lemma showInt_not_sentinel: "showInt n \<noteq> CONTRACT_BALANCE"
proof
  assume "showInt n = CONTRACT_BALANCE"
  then have "take 2 (showInt n) = ''0x''" by (simp add: CONTRACT_BALANCE_def)
  with take2_digits(1) [OF showInt_chars, of n] show False by simp
qed

section \<open>Evaluation of scaled amounts\<close>

lemma fixedDigits_numeral:
  "fixedDigits (numeral k) r = fixedDigits (pred_numeral k) (r div 10) @ [digitChar (r mod 10)]"
  by (simp only: numeral_eq_Suc fixedDigits.simps)

lemma fractionDigits_numeral:
  "fractionDigits (numeral k) r
     = (if r mod 10 = 0 then fractionDigits (pred_numeral k) (r div 10) else numeral k)"
  by (simp only: numeral_eq_Suc fractionDigits.simps)

lemma replicate_numeral_eval: "replicate (numeral k) c = c # replicate (pred_numeral k) c"
  by (simp only: numeral_eq_Suc replicate.simps)

lemmas scaledEvals =
  scaledText_def showNat_def showNatAcc.simps digitChar_def fixedDigits_numeral
  fractionDigits_numeral

section \<open>Big-number-like records\<close>

lemma isBigNumberLike_isObject: "isBigNumberLike v \<Longrightarrow> isObject v"
  by (simp add: isBigNumberLike_def)

lemma isBigNumberLike_not_null: "isBigNumberLike v \<Longrightarrow> v \<noteq> JNull \<and> v \<noteq> JUndefined"
  by (auto simp: isBigNumberLike_def)

lemma not_isBigNumberLike_JStr: "\<not> isBigNumberLike (JStr s)"
  by (simp add: isBigNumberLike_def)

lemma sentinel_not_marker: "CONTRACT_BALANCE \<noteq> balanceMarker"
  by (simp add: CONTRACT_BALANCE_def balanceMarker_def)

lemma formatValueEnhanced_bigNumber:
  assumes "isBigNumberLike v" and "jsonStringify v = Inr (Some r)"
  shows "formatValueEnhanced rt cache name v chainId contextToken =
           (case formatTokenAmount rt cache v contextToken chainId of
              Inl e \<Rightarrow> Inr \<lparr>formatted = ''Error formatting value'', raw = r\<rparr>
            | Inr text \<Rightarrow> Inr \<lparr>formatted = text, raw = r\<rparr>)"
  using assms isBigNumberLike_not_null [OF assms(1)]
  by (simp add: formatValueEnhanced.simps tryFormat.simps split: sum.splits)

lemma not_isBigNumberLike_JArr: "\<not> isBigNumberLike (JArr xs)"
  by (simp add: isBigNumberLike_def)


section \<open>When the serialization raises\<close>

lemma serialize_raises_iff:
  "isl (serializeJSON ind v) = containsBigInt v"
  "isl (serializeElems ind xs) = anyBigInt xs"
  "isl (serializeProps ind kvs) = anyBigIntProp kvs"
  by (induction ind v and ind xs and ind kvs rule: serializeJSON_serializeElems_serializeProps.induct)
     (auto split: sum.splits)

lemma jsonStringify_Inr_iff: "(\<exists>r. jsonStringify v = Inr r) = (\<not> containsBigInt v)"
  using serialize_raises_iff(1) [of "[]" v] by (cases "serializeJSON [] v") (auto simp: jsonStringify_def)

lemma containsBigInt_lookupProp: "containsBigInt (lookupProp k kvs) \<Longrightarrow> anyBigIntProp kvs"
  by (induction kvs) (auto split: if_splits)

lemma containsBigInt_propOf: "containsBigInt (propOf item k) \<Longrightarrow> containsBigInt item"
  by (cases item) (auto dest: containsBigInt_lookupProp)

lemma formatValueEnhanced_returns:
  "\<not> containsBigInt v \<Longrightarrow> \<exists>res. formatValueEnhanced rt cache name v chainId contextToken = Inr res"
  using jsonStringify_Inr_iff [of v]
  by (auto simp: formatValueEnhanced.simps Let_def split: sum.splits)

section \<open>Resolution\<close>

lemma isAddress_nonempty: "isAddress checksumOk a \<Longrightarrow> a \<noteq> []"
  by (auto simp: isAddress_def addressRegex_def)

lemma toLowerCase_usdcAddress: "toLowerCase usdcAddress = usdcAddress"
  by (simp add: usdcAddress_def toLowerCase_def lowerChar_def)

lemma toLowerCase_zeroAddress: "toLowerCase zeroAddress = zeroAddress"
  by (simp add: zeroAddress_def toLowerCase_def lowerChar_def)

lemma isAddress_usdcAddress: "isAddress checksumOk usdcAddress"
  unfolding isAddress_def toLowerCase_usdcAddress
  by (simp add: usdcAddress_def addressRegex_def isHexChar_def digitVal_def)

lemma isAddress_zeroAddress: "isAddress checksumOk zeroAddress"
  unfolding isAddress_def toLowerCase_zeroAddress
  by (simp add: zeroAddress_def addressRegex_def isHexChar_def digitVal_def)

lemma usdcAddress_not_zero: "usdcAddress \<noteq> zeroAddress"
  by (simp add: usdcAddress_def zeroAddress_def)

lemma sampleCache:
  "buildCache sampleNetworks Map.empty =
     [''1:'' @ zeroAddress \<mapsto> tokenInfoOf wrappedNative,
      zeroAddress \<mapsto> tokenInfoOf wrappedNative,
      '':'' @ usdcAddress \<mapsto> tokenInfoOf usdcListed,
      usdcAddress \<mapsto> tokenInfoOf usdcListed,
      ''10:'' @ zeroAddress \<mapsto> tokenInfoOf otherNative,
      zeroAddress \<mapsto> tokenInfoOf otherNative,
      ''10:'' @ usdcAddress \<mapsto> tokenInfoOf usdcBridgedListed,
      usdcAddress \<mapsto> tokenInfoOf usdcBridgedListed]"
proof -
  have c1: "t_contract wrappedNative = Some zeroAddress" "t_contract otherNative = Some zeroAddress"
    "t_contract usdcListed = Some usdcAddress" "t_contract usdcBridgedListed = Some usdcAddress"
    by (simp_all add: wrappedNative_def otherNative_def usdcListed_def usdcBridgedListed_def)
  have ne: "zeroAddress \<noteq> []" "usdcAddress \<noteq> []"
    by (simp_all add: zeroAddress_def usdcAddress_def)
  show ?thesis
    by (simp add: sampleNetworks_def cacheToken_def c1 ne toLowerCase_zeroAddress
          toLowerCase_usdcAddress)
qed

text \<open>
  C6 (corrected). For a well-formed address other than the all-zero native sentinel and a
  non-empty network id: when the cache holds an entry under the network-scoped key
  (network id, colon, lowercased address) and one under the lowercased address alone,
  \<open>resolveToken\<close> with that network id returns the scoped entry, whatever the other
  entry is; when the scoped key misses, it returns what the cache holds under the
  lowercased address alone.
\<close>

theorem resolveToken_scoped_precedence:
  assumes "isAddress checksumOk address" and "address \<noteq> zeroAddress" and "networkId \<noteq> []"
  shows "(cache (networkId @ '':'' @ toLowerCase address) = Some scoped
            \<and> cache (toLowerCase address) = Some agnostic
          \<longrightarrow> resolveToken checksumOk cache address (Some networkId) = Some scoped)
       \<and> (cache (networkId @ '':'' @ toLowerCase address) = None
          \<longrightarrow> resolveToken checksumOk cache address (Some networkId) = cache (toLowerCase address))"
  using assms isAddress_nonempty [OF assms(1)] by (simp add: resolveToken_def)

theorem resolveToken_scoped_precedence_witness:
  "isAddress (\<lambda>_. False) usdcAddress \<and> usdcAddress \<noteq> zeroAddress \<and> ''1'' \<noteq> []
   \<and> symbol usdcMainnet \<noteq> symbol bridgedUsdc
   \<and> resolveToken (\<lambda>_. False)
         [''1:'' @ usdcAddress \<mapsto> usdcMainnet, usdcAddress \<mapsto> bridgedUsdc]
         usdcAddress (Some ''1'') = Some usdcMainnet
   \<and> resolveToken (\<lambda>_. False) [usdcAddress \<mapsto> bridgedUsdc] usdcAddress (Some ''1'')
       = Some bridgedUsdc"
proof -
  have n: "''1'' \<noteq> ([]::string)" by simp
  have d: "''1:'' @ usdcAddress \<noteq> usdcAddress" by (simp add: usdcAddress_def)
  have s: "symbol usdcMainnet \<noteq> symbol bridgedUsdc"
    by (simp add: usdcMainnet_def bridgedUsdc_def)
  show ?thesis
    using resolveToken_scoped_precedence [of "\<lambda>_. False" usdcAddress "''1''"
          "[''1:'' @ usdcAddress \<mapsto> usdcMainnet, usdcAddress \<mapsto> bridgedUsdc]"
          usdcMainnet bridgedUsdc, OF isAddress_usdcAddress usdcAddress_not_zero n]
      resolveToken_scoped_precedence [of "\<lambda>_. False" usdcAddress "''1''"
          "[usdcAddress \<mapsto> bridgedUsdc]" usdcMainnet bridgedUsdc,
          OF isAddress_usdcAddress usdcAddress_not_zero n]
      isAddress_usdcAddress usdcAddress_not_zero d s
    by (simp add: toLowerCase_usdcAddress)
qed

text \<open>
  The claim as stated fails at the all-zero address, which is well formed: with a token
  cached under both keys, \<open>resolveToken\<close> returns the made-up native metadata; and at
  the empty network id, for which the scoped key is not looked up.
\<close>

theorem resolveToken_scoped_counterexample:
  "isAddress (\<lambda>_. False) zeroAddress
   \<and> buildCache sampleNetworks Map.empty (''1:'' @ toLowerCase zeroAddress)
       = Some (tokenInfoOf wrappedNative)
   \<and> buildCache sampleNetworks Map.empty (toLowerCase zeroAddress) = Some (tokenInfoOf otherNative)
   \<and> resolveToken (\<lambda>_. False) (buildCache sampleNetworks Map.empty) zeroAddress (Some ''1'')
       = Some nativeToken
   \<and> nativeToken \<noteq> tokenInfoOf wrappedNative
   \<and> isAddress (\<lambda>_. False) usdcAddress
   \<and> buildCache sampleNetworks Map.empty ([] @ '':'' @ toLowerCase usdcAddress)
       = Some (tokenInfoOf usdcListed)
   \<and> resolveToken (\<lambda>_. False) (buildCache sampleNetworks Map.empty) usdcAddress (Some [])
       = Some (tokenInfoOf usdcBridgedListed)
   \<and> tokenInfoOf usdcBridgedListed \<noteq> tokenInfoOf usdcListed"
proof -
  have k: "''1:'' @ zeroAddress \<noteq> zeroAddress" "''10:'' @ zeroAddress \<noteq> zeroAddress"
    "''10:'' @ zeroAddress \<noteq> ''1:'' @ zeroAddress" "'':'' @ usdcAddress \<noteq> usdcAddress"
    "''10:'' @ usdcAddress \<noteq> usdcAddress" "''10:'' @ usdcAddress \<noteq> '':'' @ usdcAddress"
    "usdcAddress \<noteq> zeroAddress" "''10:'' @ usdcAddress \<noteq> ''1:'' @ zeroAddress"
    "''10:'' @ zeroAddress \<noteq> '':'' @ usdcAddress" "usdcAddress \<noteq> ''1:'' @ zeroAddress"
    "zeroAddress \<noteq> '':'' @ usdcAddress" "''10:'' @ usdcAddress \<noteq> zeroAddress"
    "'':'' @ usdcAddress \<noteq> ''1:'' @ zeroAddress" "zeroAddress \<noteq> ''10:'' @ usdcAddress"
    "usdcAddress \<noteq> ''10:'' @ zeroAddress" "usdcAddress \<noteq> []"
    by (simp_all add: zeroAddress_def usdcAddress_def)
  have t: "nativeToken \<noteq> tokenInfoOf wrappedNative"
    "tokenInfoOf usdcBridgedListed \<noteq> tokenInfoOf usdcListed"
    by (simp_all add: nativeToken_def tokenInfoOf_def wrappedNative_def usdcBridgedListed_def
          usdcListed_def)
  show ?thesis
    using k t isAddress_zeroAddress isAddress_usdcAddress
    by (simp add: sampleCache resolveToken_def toLowerCase_zeroAddress toLowerCase_usdcAddress)
qed

section \<open>The full-balance sentinel\<close>

lemma isSentinel_truthy: "isSentinel v \<Longrightarrow> truthy v"
  by (cases v) (auto simp: isSentinel_def isBigNumberLike_def CONTRACT_BALANCE_def)

lemma formatTokenAmount_sentinel:
  "isSentinel v \<Longrightarrow> formatTokenAmount rt cache v tokenAddress chainId = Inr balanceMarker"
  by (auto simp: isSentinel_def formatTokenAmount_def convertAmount_def not_isBigNumberLike_JStr)

lemma amountLine_sentinel:
  "isSentinel v \<Longrightarrow> amountLine rt cache chainId label v tokenAddress = Inr [label @ balanceMarker]"
  by (simp add: amountLine_def isSentinel_truthy formatTokenAmount_sentinel bindE_def)

lemma bindE_Inr: "bindE m f = Inr y \<Longrightarrow> \<exists>x. m = Inr x \<and> f x = Inr y"
  by (cases m) (simp_all add: bindE_def)

lemma swapParts_lines:
  assumes "swapParts rt cache obj chainId = Inr parts"
  shows "\<exists>fromLine toLine inLine outLine minLine pathLine outputToken.
           parts = fromLine @ toLine @ inLine @ outLine @ minLine @ pathLine
           \<and> amountLine rt cache chainId ''Amount In: '' (propOf obj ''amountIn'')
                 (propOf obj ''currencyIn'') = Inr inLine
           \<and> amountLine rt cache chainId ''Amount Out: '' (propOf obj ''amountOut'') outputToken
                 = Inr outLine
           \<and> amountLine rt cache chainId ''Min Out: '' (propOf obj ''amountOutMinimum'') outputToken
                 = Inr minLine"
  using assms unfolding swapParts_def Let_def
  by (auto dest!: bindE_Inr) blast

lemma sentinel_value: "stringToBigInt CONTRACT_BALANCE = Some (2 ^ 255)"
  by (simp add: CONTRACT_BALANCE_def stringToBigInt_def trim_def isSpace_def parseDigits_def
        digitVal_def)

lemma scaled_sentinel:
  "scaledText 18 (2 ^ 255) 18
     = ''57896044618658097711785492504343953926634992332820282019728.792003956564819968''"
  by (simp add: scaledEvals)

lemma scaled_sentinel_numeral:
  "scaledText 18 57896044618658097711785492504343953926634992332820282019728792003956564819968 18
     = ''57896044618658097711785492504343953926634992332820282019728.792003956564819968''"
  using scaled_sentinel by simp

lemma formatUnits_JBigInt: "formatUnits (JBigInt n) d = Inr (signText n @ scaledText d (nat \<bar>n\<bar>) d)"
  by (simp add: formatUnits_def toStringMethod_def formatUnitsText_showInt)

lemma earlier_sentinel_amount:
  assumes "isSentinel v"
  shows "formatTokenAmount_earlier rt cache v tokenAddress
           = formatTokenAmount_earlier rt cache (JBigInt (2 ^ 255)) tokenAddress"
proof -
  have "convertAmount_earlier v = Amount (JBigInt (2 ^ 255))"
    using assms sentinel_value
    by (auto simp: isSentinel_def convertAmount_earlier_def not_isBigNumberLike_JStr
          bigNumberToBigInt_def CONTRACT_BALANCE_def)
  moreover have "convertAmount_earlier (JBigInt (2 ^ 255)) = Amount (JBigInt (2 ^ 255))"
    by (simp add: convertAmount_earlier_def isBigNumberLike_def)
  ultimately show ?thesis
    by (simp only: formatTokenAmount_earlier_def)
qed

lemma earlier_sentinel:
  assumes "isSentinel v"
  shows "formatTokenAmount_earlier rt cache v JUndefined
           = Inr (scaledText 18 (2 ^ 255) 18 @ '' tokens'')"
proof -
  have "convertAmount_earlier (JBigInt (2 ^ 255)) = Amount (JBigInt (2 ^ 255))"
    by (simp add: convertAmount_earlier_def isBigNumberLike_def)
  then have "formatTokenAmount_earlier rt cache (JBigInt (2 ^ 255)) JUndefined
           = Inr (scaledText 18 (2 ^ 255) 18 @ '' tokens'')"
    by (simp add: formatTokenAmount_earlier_def bindE_def formatUnits_JBigInt signText_def)
  with earlier_sentinel_amount [OF assms] show ?thesis by simp
qed

text \<open>
  C1 (corrected). In the current revision (\<open>src/unnamed/part_003\<close>) \<open>formatTokenAmount\<close>
  renders the full-balance sentinel as the fixed marker, whatever the runtime, the cache,
  the token address and the network: for the bare string, and for a big-number-like
  record whose hex text (\<open>hex\<close>, or \<open>_hex\<close> when \<open>hex\<close> is missing or falsy) is the
  sentinel. \<open>formatValueEnhanced\<close> displays the record form as the marker and the bare
  string as it is. In a swap descriptor whose lines are all formatted without an
  exception, a sentinel in either form as \<open>amountIn\<close>, \<open>amountOut\<close> or
  \<open>amountOutMinimum\<close> is displayed as the marker on the line of that amount. In the
  earlier revision (\<open>src/src/utils/enhancedFormatter.ts\<close>) \<open>formatTokenAmount\<close> treats
  the sentinel, in both forms, as the amount \<open>2^255\<close>.
\<close>

theorem sentinel_renders_marker:
  "(isSentinel v \<longrightarrow> formatTokenAmount rt cache v tokenAddress chainId = Inr balanceMarker)
   \<and> (isBigNumberLike v \<and> isSentinel v \<and> jsonStringify v = Inr (Some r)
        \<longrightarrow> formatValueEnhanced rt cache name v chainId tokenAddress
              = Inr \<lparr>formatted = balanceMarker, raw = r\<rparr>)
   \<and> formatValueEnhanced rt cache name (JStr CONTRACT_BALANCE) chainId tokenAddress
       = Inr \<lparr>formatted = CONTRACT_BALANCE, raw = CONTRACT_BALANCE\<rparr>
   \<and> (swapParts rt cache obj chainId = Inr parts \<longrightarrow>
        (isSentinel (propOf obj ''amountIn'') \<longrightarrow> ''Amount In: '' @ balanceMarker \<in> set parts)
        \<and> (isSentinel (propOf obj ''amountOut'') \<longrightarrow> ''Amount Out: '' @ balanceMarker \<in> set parts)
        \<and> (isSentinel (propOf obj ''amountOutMinimum'')
             \<longrightarrow> ''Min Out: '' @ balanceMarker \<in> set parts))
   \<and> (isSentinel v
        \<longrightarrow> formatTokenAmount_earlier rt cache v tokenAddress
              = formatTokenAmount_earlier rt cache (JBigInt (2 ^ 255)) tokenAddress)"
proof (intro conjI impI)
  assume "isSentinel v"
  then show "formatTokenAmount rt cache v tokenAddress chainId = Inr balanceMarker"
    by (rule formatTokenAmount_sentinel)
next
  assume a: "isBigNumberLike v \<and> isSentinel v \<and> jsonStringify v = Inr (Some r)"
  then have "formatTokenAmount rt cache v tokenAddress chainId = Inr balanceMarker"
    by (simp add: formatTokenAmount_sentinel)
  with a show "formatValueEnhanced rt cache name v chainId tokenAddress
       = Inr \<lparr>formatted = balanceMarker, raw = r\<rparr>"
    by (simp add: formatValueEnhanced_bigNumber)
next
  have "length CONTRACT_BALANCE = 66" by (simp add: CONTRACT_BALANCE_def)
  then show "formatValueEnhanced rt cache name (JStr CONTRACT_BALANCE) chainId tokenAddress
       = Inr \<lparr>formatted = CONTRACT_BALANCE, raw = CONTRACT_BALANCE\<rparr>"
    by (simp add: formatValueEnhanced.simps tryFormat.simps jsonStringify_def not_isBigNumberLike_JStr)
next
  assume p: "swapParts rt cache obj chainId = Inr parts"
    and s: "isSentinel (propOf obj ''amountIn'')"
  from swapParts_lines [OF p] s show "''Amount In: '' @ balanceMarker \<in> set parts"
    by (auto simp: amountLine_sentinel)
next
  assume p: "swapParts rt cache obj chainId = Inr parts"
    and s: "isSentinel (propOf obj ''amountOut'')"
  from swapParts_lines [OF p] s show "''Amount Out: '' @ balanceMarker \<in> set parts"
    by (auto simp: amountLine_sentinel)
next
  assume p: "swapParts rt cache obj chainId = Inr parts"
    and s: "isSentinel (propOf obj ''amountOutMinimum'')"
  from swapParts_lines [OF p] s show "''Min Out: '' @ balanceMarker \<in> set parts"
    by (auto simp: amountLine_sentinel)
next
  assume "isSentinel v"
  then show "formatTokenAmount_earlier rt cache v tokenAddress
              = formatTokenAmount_earlier rt cache (JBigInt (2 ^ 255)) tokenAddress"
    by (rule earlier_sentinel_amount)
qed

lemma sentinelSwap_parts:
  "swapParts sampleRuntime (buildCache sampleNetworks Map.empty) sentinelSwap (Some ''10'')
     = Inr [''From: USDC.e'', ''To: ETH'', ''Amount In: '' @ balanceMarker, ''Min Out: 1.5 ETH'']"
  by (simp add: evals sampleData sentinelSwap_def)

lemma sentinelSwap_display:
  "formatSwapObject sampleRuntime (buildCache sampleNetworks Map.empty) sentinelSwap (Some ''10'')
     = ''From: USDC.e'' @ newline @ ''To: ETH'' @ newline @ ''Amount In: '' @ balanceMarker
       @ newline @ ''Min Out: 1.5 ETH''"
  by (simp add: formatSwapObject_def sentinelSwap_parts)

lemma sentinel_forms:
  "isSentinel (JStr CONTRACT_BALANCE)"
  "isBigNumberLike sentinelRecord \<and> isSentinel sentinelRecord"
  "isBigNumberLike legacyRecord \<and> isSentinel legacyRecord"
  by (simp_all add: isSentinel_def sentinelRecord_def legacyRecord_def isBigNumberLike_def
        hexOf_def orElse_def CONTRACT_BALANCE_def)

lemma stringify_sentinelRecord: "jsonStringify sentinelRecord = Inr (Some sentinelRaw)"
  by (simp add: sentinelRecord_def sentinelRaw_def jsonStringify_def quoteJSONString_def
        quoteChar_def CONTRACT_BALANCE_def)

theorem sentinel_renders_marker_witness:
  "isBigNumberLike sentinelRecord \<and> isSentinel sentinelRecord
   \<and> isBigNumberLike legacyRecord \<and> isSentinel legacyRecord
   \<and> jsonStringify sentinelRecord = Inr (Some sentinelRaw)
   \<and> formatTokenAmount sampleRuntime (buildCache sampleNetworks Map.empty) legacyRecord
         (JStr usdcAddress) (Some ''10'') = Inr balanceMarker
   \<and> formatValueEnhanced sampleRuntime (buildCache sampleNetworks Map.empty) (JStr ''amountIn'')
         sentinelRecord (Some ''10'') (JStr usdcAddress)
       = Inr \<lparr>formatted = balanceMarker, raw = sentinelRaw\<rparr>
   \<and> isSentinel (propOf sentinelSwap ''amountIn'')
   \<and> swapParts sampleRuntime (buildCache sampleNetworks Map.empty) sentinelSwap (Some ''10'')
       = Inr [''From: USDC.e'', ''To: ETH'', ''Amount In: '' @ balanceMarker, ''Min Out: 1.5 ETH'']
   \<and> ''Amount In: '' @ balanceMarker
       \<in> set [''From: USDC.e'', ''To: ETH'', ''Amount In: '' @ balanceMarker, ''Min Out: 1.5 ETH'']"
proof -
  have s: "isSentinel (propOf sentinelSwap ''amountIn'')"
    by (simp add: sentinelSwap_def isSentinel_def)
  show ?thesis
    using sentinel_forms stringify_sentinelRecord sentinelSwap_parts s
      sentinel_renders_marker [of legacyRecord sampleRuntime "buildCache sampleNetworks Map.empty"
        "JStr usdcAddress" "Some ''10''" sentinelRaw "JStr ''amountIn''" sentinelSwap
        "[''From: USDC.e'', ''To: ETH'', ''Amount In: '' @ balanceMarker, ''Min Out: 1.5 ETH'']"]
      sentinel_renders_marker [of sentinelRecord sampleRuntime "buildCache sampleNetworks Map.empty"
        "JStr usdcAddress" "Some ''10''" sentinelRaw "JStr ''amountIn''" sentinelSwap
        "[''From: USDC.e'', ''To: ETH'', ''Amount In: '' @ balanceMarker, ''Min Out: 1.5 ETH'']"]
    by simp
qed

text \<open>
  The claim as stated fails in the current revision for the bare string given to the
  formatter itself, whose display is the hexadecimal text and not the marker, and in the
  earlier revision (\<open>src/src/utils/enhancedFormatter.ts\<close>) for both forms: there
  \<open>formatTokenAmount\<close> scales the sentinel as the amount \<open>2^255\<close>.
\<close>

theorem sentinel_string_counterexample:
  "formatValueEnhanced sampleRuntime Map.empty (JStr ''amountIn'') (JStr CONTRACT_BALANCE)
       (Some ''1'') JUndefined
     = Inr \<lparr>formatted = CONTRACT_BALANCE, raw = CONTRACT_BALANCE\<rparr>
   \<and> CONTRACT_BALANCE \<noteq> balanceMarker
   \<and> formatTokenAmount_earlier sampleRuntime Map.empty (JStr CONTRACT_BALANCE) JUndefined
       = Inr ''57896044618658097711785492504343953926634992332820282019728.792003956564819968 tokens''
   \<and> formatTokenAmount_earlier sampleRuntime Map.empty sentinelRecord JUndefined
       = Inr ''57896044618658097711785492504343953926634992332820282019728.792003956564819968 tokens''"
proof -
  have "length CONTRACT_BALANCE = 66" by (simp add: CONTRACT_BALANCE_def)
  then show ?thesis
    using earlier_sentinel [OF sentinel_forms(1), of sampleRuntime Map.empty,
        unfolded scaled_sentinel]
      earlier_sentinel [OF conjunct2 [OF sentinel_forms(2)], of sampleRuntime Map.empty,
        unfolded scaled_sentinel]
    by (simp add: formatValueEnhanced.simps tryFormat.simps jsonStringify_def
          not_isBigNumberLike_JStr sentinel_not_marker)
qed

section \<open>Amounts\<close>

lemma convertAmount_JBigInt: "convertAmount (JBigInt n) = Amount (JBigInt n)"
  by (simp add: convertAmount_def isBigNumberLike_def)

lemma convertAmount_JStr:
  "stringToBigInt s = Some n \<Longrightarrow> s \<noteq> CONTRACT_BALANCE \<Longrightarrow> convertAmount (JStr s) = Amount (JBigInt n)"
  by (simp add: convertAmount_def isBigNumberLike_def)

lemma convertAmount_record:
  assumes "isBigNumberLike bn" and "hexOf bn = JStr h" and "stringToBigInt h = Some n"
  shows "convertAmount bn = Amount (JBigInt n)"
proof (cases "h = []")
  case True
  with assms(3) have "n = 0" by (simp add: stringToBigInt_def trim_def)
  with True assms(1,2) show ?thesis
    by (simp add: convertAmount_def bigNumberToBigInt_def)
next
  case False
  with assms show ?thesis
    by (simp add: convertAmount_def bigNumberToBigInt_def)
qed

lemma displayAmount_scaledText:
  "displayAmount (signText n @ scaledText d (nat \<bar>n\<bar>) d) = signText n @ scaledText 6 (nat \<bar>n\<bar>) d"
  using displayAmount_showInt [of n d] by (simp only: formatUnitsText_showInt)

lemma formatTokenAmount_Amount:
  assumes "convertAmount amount = Amount (JBigInt n)"
      and "\<not> (isBigNumberLike amount \<and> hexOf amount = JStr CONTRACT_BALANCE)"
  shows "formatTokenAmount rt cache amount tokenAddress chainId
           = bindE (if truthy tokenAddress
                    then resolveTokenAny (checksum rt) cache tokenAddress (orUndefined chainId)
                    else Inr None)
               (\<lambda>tokenInfo. case tokenInfo of
                  Some info \<Rightarrow>
                    Inr (signText n @ scaledText 6 (nat \<bar>n\<bar>) (decimals info) @ '' '' @ symbol info)
                | None \<Rightarrow> Inr (signText n @ scaledText 18 (nat \<bar>n\<bar>) 18 @ '' tokens''))"
proof -
  have u: "formatUnits (JBigInt n) d = Inr (formatUnitsText (showInt n) d)" for d
    by (simp add: formatUnits_def toStringMethod_def)
  show ?thesis
    using assms
    by (auto simp: formatTokenAmount_def u bindE_def formatUnitsText_showInt
             displayAmount_scaledText split: sum.splits option.splits)
qed

lemma formatTokenAmount_fallback:
  "formatTokenAmount rt cache (JBigInt n) JUndefined chainId
     = Inr (signText n @ scaledText 18 (nat \<bar>n\<bar>) 18 @ '' tokens'')"
proof -
  have nb: "\<not> (isBigNumberLike (JBigInt n) \<and> hexOf (JBigInt n) = JStr CONTRACT_BALANCE)"
    by (simp add: isBigNumberLike_def)
  show ?thesis
    by (simp add: formatTokenAmount_Amount [OF convertAmount_JBigInt nb] bindE_def)
qed

text \<open>
  C8 (corrected). For an amount that the conversion at the head of \<open>formatTokenAmount\<close>
  turns into the integer \<open>n\<close> (a decimal string, a native bigint, or a big-number-like
  record) and that is not the full-balance sentinel, and a contextual currency that is
  present: when the currency resolves, the text is the numeral of \<open>n\<close> scaled by the
  currency's decimals, with the fraction cut after at most six digits, followed by the
  symbol; when it does not resolve, the text is the numeral of \<open>n\<close> scaled by 18
  decimals, in full, followed by \<open>tokens\<close>.
\<close>

theorem token_amount_scaling:
  assumes "convertAmount amount = Amount (JBigInt n)"
      and "\<not> (isBigNumberLike amount \<and> hexOf amount = JStr CONTRACT_BALANCE)"
      and "truthy tokenAddress"
  shows "(resolveTokenAny (checksum rt) cache tokenAddress (orUndefined chainId) = Inr (Some info)
          \<longrightarrow> formatTokenAmount rt cache amount tokenAddress chainId
                = Inr (signText n @ scaledText 6 (nat \<bar>n\<bar>) (decimals info) @ '' '' @ symbol info))
       \<and> (resolveTokenAny (checksum rt) cache tokenAddress (orUndefined chainId) = Inr None
          \<longrightarrow> formatTokenAmount rt cache amount tokenAddress chainId
                = Inr (signText n @ scaledText 18 (nat \<bar>n\<bar>) 18 @ '' tokens''))"
  using assms(3) by (simp add: formatTokenAmount_Amount [OF assms(1,2)] bindE_def)

lemma scaledText_samples:
  "scaledText 6 1234567890123456789 18 = ''1.234567''"
  "scaledText 18 1234567890123456789 18 = ''1.234567890123456789''"
  "scaledText 6 1500000000000000000 18 = ''1.5''"
  by (simp_all add: scaledEvals)

lemma convert_sample:
  "convertAmount (JStr ''1234567890123456789'') = Amount (JBigInt 1234567890123456789)"
  by (simp add: convertAmount_def isBigNumberLike_def CONTRACT_BALANCE_def stringToBigInt_def
        trim_def isSpace_def parseDigits_def digitVal_def)

lemma resolve_samples:
  "resolveTokenAny (checksum sampleRuntime) Map.empty (JStr zeroAddress) (orUndefined (Some ''1''))
     = Inr (Some nativeToken)"
  "resolveTokenAny (checksum sampleRuntime) Map.empty (JStr usdcAddress) (orUndefined (Some ''1''))
     = Inr None"
  using isAddress_usdcAddress [of "checksum sampleRuntime"] usdcAddress_not_zero
    isAddress_nonempty [OF isAddress_usdcAddress [of "checksum sampleRuntime"]]
  by (simp_all add: resolveToken_def orUndefined_def)

theorem token_amount_scaling_witness:
  "convertAmount (JStr ''1234567890123456789'') = Amount (JBigInt 1234567890123456789)
   \<and> \<not> (isBigNumberLike (JStr ''1234567890123456789'')
          \<and> hexOf (JStr ''1234567890123456789'') = JStr CONTRACT_BALANCE)
   \<and> truthy (JStr zeroAddress) \<and> truthy (JStr usdcAddress)
   \<and> resolveTokenAny (checksum sampleRuntime) Map.empty (JStr zeroAddress) (orUndefined (Some ''1''))
       = Inr (Some nativeToken)
   \<and> formatTokenAmount sampleRuntime Map.empty (JStr ''1234567890123456789'') (JStr zeroAddress)
        (Some ''1'') = Inr ''1.234567 ETH''
   \<and> resolveTokenAny (checksum sampleRuntime) Map.empty (JStr usdcAddress) (orUndefined (Some ''1''))
       = Inr None
   \<and> formatTokenAmount sampleRuntime Map.empty (JStr ''1234567890123456789'') (JStr usdcAddress)
        (Some ''1'') = Inr ''1.234567890123456789 tokens''"
proof -
  have nb: "\<not> (isBigNumberLike (JStr ''1234567890123456789'')
          \<and> hexOf (JStr ''1234567890123456789'') = JStr CONTRACT_BALANCE)"
    by (simp add: not_isBigNumberLike_JStr)
  have t: "truthy (JStr zeroAddress)" "truthy (JStr usdcAddress)"
    by (simp_all add: zeroAddress_def usdcAddress_def)
  show ?thesis
    using convert_sample nb t resolve_samples
      token_amount_scaling [OF convert_sample nb t(1), of sampleRuntime Map.empty "Some ''1''"
        nativeToken]
      token_amount_scaling [OF convert_sample nb t(2), of sampleRuntime Map.empty "Some ''1''"
        nativeToken]
    by (simp add: scaledText_samples signText_def nativeToken_def)
qed

text \<open>
  The claim as stated fails for the encoding of \<open>2^255\<close> as a record: it is the
  full-balance sentinel, and with a contextual currency that resolves the text is the
  marker, not a scaled amount with the symbol.
\<close>

theorem token_amount_scaling_counterexample:
  "isBigNumberLike sentinelRecord \<and> bigNumberToBigInt sentinelRecord = Inr (2 ^ 255)
   \<and> truthy (JStr zeroAddress)
   \<and> resolveTokenAny (checksum sampleRuntime) Map.empty (JStr zeroAddress) (orUndefined (Some ''1''))
       = Inr (Some nativeToken)
   \<and> formatTokenAmount sampleRuntime Map.empty sentinelRecord (JStr zeroAddress) (Some ''1'')
       = Inr balanceMarker
   \<and> balanceMarker \<noteq> scaledText 6 (2 ^ 255) 18 @ '' ETH''"
proof -
  have a: "bigNumberToBigInt sentinelRecord = Inr (2 ^ 255)"
    using sentinel_value
    by (simp add: bigNumberToBigInt_def sentinelRecord_def hexOf_def orElse_def CONTRACT_BALANCE_def)
  have "last balanceMarker \<noteq> last (scaledText 6 (2 ^ 255) 18 @ '' ETH'')"
    by (simp add: balanceMarker_def)
  then have b: "balanceMarker \<noteq> scaledText 6 (2 ^ 255) 18 @ '' ETH''"
    by metis
  show ?thesis
    using a b sentinel_forms(2) resolve_samples(1)
      formatTokenAmount_sentinel [OF conjunct2 [OF sentinel_forms(2)]]
    by (simp add: zeroAddress_def)
qed

text \<open>
  C2 (corrected). \<open>formatTokenAmount\<close> gives the same text for the native bigint \<open>n\<close>, for
  every string that \<open>BigInt\<close> reads as \<open>n\<close> (the decimal numeral of \<open>n\<close> is one) and for
  every big-number-like record whose hex text \<open>BigInt\<close> reads as \<open>n\<close>, under the same
  contextual currency, network and cache, provided the string and the hex text are not
  the full-balance sentinel. \<open>formatValueEnhanced\<close> itself treats only the record as an
  amount: it raises a TypeError on the native bigint and displays the decimal numeral
  as it is.
\<close>

theorem encodings_same_display:
  "formatTokenAmount rt cache (JStr (showInt n)) tokenAddress chainId
     = formatTokenAmount rt cache (JBigInt n) tokenAddress chainId
   \<and> (stringToBigInt s = Some n \<and> s \<noteq> CONTRACT_BALANCE
      \<longrightarrow> formatTokenAmount rt cache (JStr s) tokenAddress chainId
            = formatTokenAmount rt cache (JBigInt n) tokenAddress chainId)
   \<and> (isBigNumberLike bn \<and> hexOf bn = JStr h \<and> stringToBigInt h = Some n \<and> h \<noteq> CONTRACT_BALANCE
      \<longrightarrow> formatTokenAmount rt cache bn tokenAddress chainId
            = formatTokenAmount rt cache (JBigInt n) tokenAddress chainId)
   \<and> formatValueEnhanced rt cache name (JBigInt n) chainId tokenAddress = Inl TypeError
   \<and> formatValueEnhanced rt cache name (JStr (showInt n)) chainId tokenAddress
       = Inr \<lparr>formatted = showInt n, raw = showInt n\<rparr>
   \<and> (isBigNumberLike bn \<and> jsonStringify bn = Inr (Some r)
      \<longrightarrow> formatValueEnhanced rt cache name bn chainId tokenAddress
            = (case formatTokenAmount rt cache bn tokenAddress chainId of
                 Inl e \<Rightarrow> Inr \<lparr>formatted = ''Error formatting value'', raw = r\<rparr>
               | Inr text \<Rightarrow> Inr \<lparr>formatted = text, raw = r\<rparr>))"
proof (intro conjI impI)
  have nb: "\<not> (isBigNumberLike (JBigInt n) \<and> hexOf (JBigInt n) = JStr CONTRACT_BALANCE)"
    by (simp add: isBigNumberLike_def)
  have big: "formatTokenAmount rt cache amount tokenAddress chainId
               = formatTokenAmount rt cache (JBigInt n) tokenAddress chainId"
    if "convertAmount amount = Amount (JBigInt n)"
      and "\<not> (isBigNumberLike amount \<and> hexOf amount = JStr CONTRACT_BALANCE)" for amount
    using formatTokenAmount_Amount [OF that] formatTokenAmount_Amount [OF convertAmount_JBigInt nb]
    by simp
  show "formatTokenAmount rt cache (JStr (showInt n)) tokenAddress chainId
     = formatTokenAmount rt cache (JBigInt n) tokenAddress chainId"
    by (rule big) (simp_all add: convertAmount_JStr stringToBigInt_showInt showInt_not_sentinel
          not_isBigNumberLike_JStr)
  {
    assume "stringToBigInt s = Some n \<and> s \<noteq> CONTRACT_BALANCE"
    then show "formatTokenAmount rt cache (JStr s) tokenAddress chainId
            = formatTokenAmount rt cache (JBigInt n) tokenAddress chainId"
      by (intro big) (simp_all add: convertAmount_JStr not_isBigNumberLike_JStr)
  }
  {
    assume "isBigNumberLike bn \<and> hexOf bn = JStr h \<and> stringToBigInt h = Some n
            \<and> h \<noteq> CONTRACT_BALANCE"
    then show "formatTokenAmount rt cache bn tokenAddress chainId
            = formatTokenAmount rt cache (JBigInt n) tokenAddress chainId"
      by (intro big) (simp_all add: convertAmount_record)
  }
  show "formatValueEnhanced rt cache name (JBigInt n) chainId tokenAddress = Inl TypeError"
    by (simp add: formatValueEnhanced.simps jsonStringify_def)
  have "take 2 (showInt n) \<noteq> ''0x''"
    using take2_digits(1) [OF showInt_chars, of n] by simp
  then show "formatValueEnhanced rt cache name (JStr (showInt n)) chainId tokenAddress
       = Inr \<lparr>formatted = showInt n, raw = showInt n\<rparr>"
    by (simp add: formatValueEnhanced.simps tryFormat.simps jsonStringify_def
          not_isBigNumberLike_JStr)
  {
    assume "isBigNumberLike bn \<and> jsonStringify bn = Inr (Some r)"
    then show "formatValueEnhanced rt cache name bn chainId tokenAddress
            = (case formatTokenAmount rt cache bn tokenAddress chainId of
                 Inl e \<Rightarrow> Inr \<lparr>formatted = ''Error formatting value'', raw = r\<rparr>
               | Inr text \<Rightarrow> Inr \<lparr>formatted = text, raw = r\<rparr>)"
      by (simp add: formatValueEnhanced_bigNumber)
  }
qed

lemma amountRecord_facts:
  "isBigNumberLike amountRecord" "hexOf amountRecord = JStr ''0x14d1120d7b160000''"
  "stringToBigInt ''0x14d1120d7b160000'' = Some 1500000000000000000"
  "''0x14d1120d7b160000'' \<noteq> CONTRACT_BALANCE"
  "jsonStringify amountRecord = Inr (Some amountRecordRaw)"
  by (simp_all add: amountRecord_def amountRecordRaw_def isBigNumberLike_def hexOf_def orElse_def
        stringToBigInt_def trim_def isSpace_def parseDigits_def digitVal_def CONTRACT_BALANCE_def
        jsonStringify_def quoteJSONString_def quoteChar_def)

lemma amount_bigint_sample:
  "formatTokenAmount sampleRuntime Map.empty (JBigInt 1500000000000000000) (JStr zeroAddress)
     (Some ''1'') = Inr ''1.5 ETH''"
proof -
  have nb: "\<not> (isBigNumberLike (JBigInt 1500000000000000000)
                \<and> hexOf (JBigInt 1500000000000000000) = JStr CONTRACT_BALANCE)"
    by (simp add: isBigNumberLike_def)
  show ?thesis
    using resolve_samples(1)
    by (simp add: formatTokenAmount_Amount [OF convertAmount_JBigInt nb] bindE_def
          scaledText_samples signText_def nativeToken_def zeroAddress_def)
qed

theorem encodings_same_display_witness:
  "isBigNumberLike amountRecord \<and> hexOf amountRecord = JStr ''0x14d1120d7b160000''
   \<and> stringToBigInt ''0x14d1120d7b160000'' = Some 1500000000000000000
   \<and> ''0x14d1120d7b160000'' \<noteq> CONTRACT_BALANCE
   \<and> jsonStringify amountRecord = Inr (Some amountRecordRaw)
   \<and> formatTokenAmount sampleRuntime Map.empty (JBigInt 1500000000000000000) (JStr zeroAddress)
        (Some ''1'') = Inr ''1.5 ETH''
   \<and> formatTokenAmount sampleRuntime Map.empty (JStr (showInt 1500000000000000000))
        (JStr zeroAddress) (Some ''1'') = Inr ''1.5 ETH''
   \<and> formatTokenAmount sampleRuntime Map.empty (JStr ''0x14d1120d7b160000'') (JStr zeroAddress)
        (Some ''1'') = Inr ''1.5 ETH''
   \<and> formatTokenAmount sampleRuntime Map.empty amountRecord (JStr zeroAddress) (Some ''1'')
       = Inr ''1.5 ETH''
   \<and> formatValueEnhanced sampleRuntime Map.empty (JStr ''amountIn'') amountRecord (Some ''1'')
        (JStr zeroAddress) = Inr \<lparr>formatted = ''1.5 ETH'', raw = amountRecordRaw\<rparr>"
  using amountRecord_facts amount_bigint_sample
    encodings_same_display [of sampleRuntime Map.empty 1500000000000000000 "JStr zeroAddress"
      "Some ''1''" "''0x14d1120d7b160000''" amountRecord "''0x14d1120d7b160000''"
      "JStr ''amountIn''" amountRecordRaw]
  by simp

text \<open>
  The claim as stated fails at \<open>n = 2^255\<close>: the record whose hex text encodes it is the
  full-balance sentinel and is displayed as the marker, the native bigint as a scaled
  amount. It fails for every \<open>n\<close> when the three encodings are given to
  \<open>formatValueEnhanced\<close>: for \<open>n = 5\<close> the decimal string is displayed as it is, the
  native bigint raises a TypeError, and only the record is scaled.
\<close>

theorem encodings_same_display_counterexample:
  "isBigNumberLike sentinelRecord \<and> bigNumberToBigInt sentinelRecord = Inr (2 ^ 255)
   \<and> formatTokenAmount sampleRuntime Map.empty sentinelRecord JUndefined (Some ''1'')
       = Inr balanceMarker
   \<and> formatTokenAmount sampleRuntime Map.empty (JBigInt (2 ^ 255)) JUndefined (Some ''1'')
       = Inr ''57896044618658097711785492504343953926634992332820282019728.792003956564819968 tokens''
   \<and> formatValueEnhanced sampleRuntime Map.empty (JStr ''amountIn'') (JStr ''5'') (Some ''1'')
        JUndefined = Inr \<lparr>formatted = ''5'', raw = ''5''\<rparr>
   \<and> formatValueEnhanced sampleRuntime Map.empty (JStr ''amountIn'') (JBigInt 5) (Some ''1'')
        JUndefined = Inl TypeError
   \<and> formatValueEnhanced sampleRuntime Map.empty (JStr ''amountIn'')
        (JObj [(''type'', JStr ''BigNumber''), (''hex'', JStr ''0x05'')]) (Some ''1'') JUndefined
       = Inr \<lparr>formatted = ''0.000000000000000005 tokens'',
              raw = ''{'' @ newline @ ''  '' @ quoteJSONString ''type'' @ '': ''
                    @ quoteJSONString ''BigNumber'' @ '','' @ newline @ ''  ''
                    @ quoteJSONString ''hex'' @ '': '' @ quoteJSONString ''0x05'' @ newline @ ''}''\<rparr>"
proof -
  have a: "bigNumberToBigInt sentinelRecord = Inr (2 ^ 255)"
    using sentinel_value
    by (simp add: bigNumberToBigInt_def sentinelRecord_def hexOf_def orElse_def CONTRACT_BALANCE_def)
  have b: "formatTokenAmount sampleRuntime Map.empty (JBigInt (2 ^ 255)) JUndefined (Some ''1'')
       = Inr ''57896044618658097711785492504343953926634992332820282019728.792003956564819968 tokens''"
    by (simp add: formatTokenAmount_fallback signText_def scaled_sentinel_numeral)
  have c: "formatValueEnhanced sampleRuntime Map.empty (JStr ''amountIn'') (JStr ''5'') (Some ''1'')
        JUndefined = Inr \<lparr>formatted = ''5'', raw = ''5''\<rparr>"
    by (simp add: formatValueEnhanced.simps tryFormat.simps jsonStringify_def
          not_isBigNumberLike_JStr)
  have d: "formatValueEnhanced sampleRuntime Map.empty (JStr ''amountIn'') (JBigInt 5) (Some ''1'')
        JUndefined = Inl TypeError"
    by (simp add: formatValueEnhanced.simps jsonStringify_def)
  have r: "isBigNumberLike (JObj [(''type'', JStr ''BigNumber''), (''hex'', JStr ''0x05'')])"
    "hexOf (JObj [(''type'', JStr ''BigNumber''), (''hex'', JStr ''0x05'')]) = JStr ''0x05''"
    "stringToBigInt ''0x05'' = Some 5"
    "jsonStringify (JObj [(''type'', JStr ''BigNumber''), (''hex'', JStr ''0x05'')])
       = Inr (Some (''{'' @ newline @ ''  '' @ quoteJSONString ''type'' @ '': ''
                    @ quoteJSONString ''BigNumber'' @ '','' @ newline @ ''  ''
                    @ quoteJSONString ''hex'' @ '': '' @ quoteJSONString ''0x05'' @ newline @ ''}''))"
    by (simp_all add: isBigNumberLike_def hexOf_def orElse_def stringToBigInt_def trim_def
          isSpace_def parseDigits_def digitVal_def jsonStringify_def)
  have ns: "\<not> (isBigNumberLike (JObj [(''type'', JStr ''BigNumber''), (''hex'', JStr ''0x05'')])
         \<and> hexOf (JObj [(''type'', JStr ''BigNumber''), (''hex'', JStr ''0x05'')])
             = JStr CONTRACT_BALANCE)"
    by (simp add: r(2) CONTRACT_BALANCE_def)
  have "formatTokenAmount sampleRuntime Map.empty
          (JObj [(''type'', JStr ''BigNumber''), (''hex'', JStr ''0x05'')]) JUndefined (Some ''1'')
        = Inr ''0.000000000000000005 tokens''"
    by (simp add: formatTokenAmount_Amount [OF convertAmount_record [OF r(1,2,3)] ns] bindE_def
          signText_def scaledEvals)
  then have e: "formatValueEnhanced sampleRuntime Map.empty (JStr ''amountIn'')
        (JObj [(''type'', JStr ''BigNumber''), (''hex'', JStr ''0x05'')]) (Some ''1'') JUndefined
       = Inr \<lparr>formatted = ''0.000000000000000005 tokens'',
              raw = ''{'' @ newline @ ''  '' @ quoteJSONString ''type'' @ '': ''
                    @ quoteJSONString ''BigNumber'' @ '','' @ newline @ ''  ''
                    @ quoteJSONString ''hex'' @ '': '' @ quoteJSONString ''0x05'' @ newline @ ''}''\<rparr>"
    by (simp add: formatValueEnhanced_bigNumber [OF r(1) r(4)])
  show ?thesis
    using a b c d e sentinel_forms(2)
      formatTokenAmount_sentinel [OF conjunct2 [OF sentinel_forms(2)]]
    by simp
qed

section \<open>The raw text\<close>

lemma jsonStringify_defined: "jsonStringify v = Inr None \<Longrightarrow> v = JUndefined"
  by (cases v) (auto simp: jsonStringify_def split: sum.splits if_splits)

lemma tryFormat_raw:
  assumes "tryFormat rt cache rawText v chainId contextToken = Inr r"
  shows "raw r = (case v of
                    JStr s \<Rightarrow> s
                  | JUndefined \<Rightarrow> ''null''
                  | JNull \<Rightarrow> ''null''
                  | JBool b \<Rightarrow> jsToString v
                  | JNum n \<Rightarrow> jsToString v
                  | JBigInt n \<Rightarrow> jsToString v
                  | JArr xs \<Rightarrow> if xs = [] then ''[]'' else rawText
                  | JObj kvs \<Rightarrow> rawText)"
proof (cases v)
  case (JArr xs)
  with assms show ?thesis
    by (auto simp: tryFormat.simps isBigNumberLike_def split: sum.splits if_splits)
next
  case (JObj kvs)
  with assms show ?thesis
    by (auto simp: tryFormat.simps split: sum.splits if_splits)
next
  case (JStr s)
  with assms show ?thesis
    by (auto simp: tryFormat.simps isBigNumberLike_def split: option.splits if_splits)
qed (use assms in \<open>auto simp: tryFormat.simps isBigNumberLike_def\<close>)

lemma tryFormat_raises:
  assumes "tryFormat rt cache rawText v chainId contextToken = Inl e"
  shows "(\<exists>xs. v = JArr xs \<and> xs \<noteq> []) \<or> (\<exists>kvs. v = JObj kvs)"
  using assms
  by (cases v) (auto simp: tryFormat.simps isBigNumberLike_def split: sum.splits if_splits option.splits)

lemma formatValueEnhanced_raw:
  assumes "jsonStringify v = Inr rawOpt"
  shows "map_sum id raw (formatValueEnhanced rt cache name v chainId contextToken)
           = Inr (expectedRaw v rawOpt)"
proof (cases "tryFormat rt cache (case rawOpt of None \<Rightarrow> [] | Some t \<Rightarrow> t) v chainId contextToken")
  case (Inl e)
  from tryFormat_raises [OF Inl] assms Inl show ?thesis
    by (auto simp: formatValueEnhanced.simps expectedRaw_def)
next
  case (Inr r)
  from tryFormat_raw [OF Inr] assms Inr show ?thesis
    by (cases v)
       (auto simp: formatValueEnhanced.simps expectedRaw_def jsonStringify_def
             split: sum.splits if_splits)
qed

text \<open>
  C3 (corrected). When the serialization of the value raises a TypeError (a native bigint
  in it), so does the formatter, before its \<open>try\<close>. Otherwise the formatter returns, also
  when the body of its \<open>try\<close> has raised, and \<open>raw\<close> is: for a string the text itself,
  without quotes; for undefined the text \<open>null\<close>; for a boolean and for a number the text
  \<open>String(value)\<close>; for every other value (null, an array, an object) the serialization
  \<open>JSON.stringify(value, null, 2)\<close> of the value. In every case it is the same for any
  two runtimes, caches, networks and contextual tokens.
\<close>

theorem raw_is_input_serialization:
  "(jsonStringify v = Inl e
      \<longrightarrow> formatValueEnhanced rt cache name v chainId contextToken = Inl e)
   \<and> (jsonStringify v = Inr rawOpt
      \<longrightarrow> map_sum id raw (formatValueEnhanced rt cache name v chainId contextToken)
            = Inr (case v of
                     JStr s \<Rightarrow> s
                   | JUndefined \<Rightarrow> ''null''
                   | JBool b \<Rightarrow> jsToString v
                   | JNum n \<Rightarrow> jsToString v
                   | _ \<Rightarrow> (case rawOpt of None \<Rightarrow> [] | Some t \<Rightarrow> t)))
   \<and> map_sum id raw (formatValueEnhanced rt cache name v chainId contextToken)
       = map_sum id raw (formatValueEnhanced rt' cache' name' v chainId' contextToken')"
proof (intro conjI impI)
  assume "jsonStringify v = Inl e"
  then show "formatValueEnhanced rt cache name v chainId contextToken = Inl e"
    by (simp add: formatValueEnhanced.simps)
next
  assume "jsonStringify v = Inr rawOpt"
  then show "map_sum id raw (formatValueEnhanced rt cache name v chainId contextToken)
            = Inr (case v of
                     JStr s \<Rightarrow> s
                   | JUndefined \<Rightarrow> ''null''
                   | JBool b \<Rightarrow> jsToString v
                   | JNum n \<Rightarrow> jsToString v
                   | _ \<Rightarrow> (case rawOpt of None \<Rightarrow> [] | Some t \<Rightarrow> t))"
    using formatValueEnhanced_raw [of v rawOpt] by (simp add: expectedRaw_def)
next
  show "map_sum id raw (formatValueEnhanced rt cache name v chainId contextToken)
       = map_sum id raw (formatValueEnhanced rt' cache' name' v chainId' contextToken')"
  proof (cases "jsonStringify v")
    case (Inl e)
    then show ?thesis by (simp add: formatValueEnhanced.simps)
  next
    case (Inr rawOpt)
    then show ?thesis by (simp add: formatValueEnhanced_raw)
  qed
qed

lemma stringify_addressPath: "jsonStringify addressPath = Inr (Some addressPathRaw)"
  by (simp add: jsonStringify_def addressPath_def addressPathRaw_def)

lemma addressPath_loaded:
  "formatValueEnhanced sampleRuntime (buildCache sampleNetworks Map.empty) (JStr ''path'')
     addressPath (Some ''10'') JUndefined
   = Inr \<lparr>formatted = ''USDC.e'', raw = addressPathRaw\<rparr>"
  by (simp add: evals sampleData addressPath_def addressPathRaw_def)

lemma addressPath_failed:
  "formatValueEnhanced sampleRuntime Map.empty (JStr ''path'') addressPath (Some ''10'') JUndefined
   = Inr \<lparr>formatted = ''0xa0b8...eb48'', raw = addressPathRaw\<rparr>"
  by (simp add: evals sampleData addressPath_def addressPathRaw_def)

theorem raw_is_input_serialization_witness:
  "jsonStringify addressPath = Inr (Some addressPathRaw)
   \<and> formatValueEnhanced sampleRuntime (buildCache sampleNetworks Map.empty) (JStr ''path'')
        addressPath (Some ''10'') JUndefined
       = Inr \<lparr>formatted = ''USDC.e'', raw = addressPathRaw\<rparr>
   \<and> formatValueEnhanced sampleRuntime Map.empty (JStr ''path'') addressPath (Some ''10'') JUndefined
       = Inr \<lparr>formatted = ''0xa0b8...eb48'', raw = addressPathRaw\<rparr>
   \<and> jsonStringify (JArr [JBigInt 5]) = Inl TypeError
   \<and> formatValueEnhanced sampleRuntime Map.empty (JStr ''path'') (JArr [JBigInt 5]) (Some ''10'')
        JUndefined = Inl TypeError"
proof -
  have b: "jsonStringify (JArr [JBigInt 5]) = Inl TypeError"
    by (simp add: jsonStringify_def)
  show ?thesis
    using stringify_addressPath b addressPath_loaded addressPath_failed
      raw_is_input_serialization [of addressPath TypeError sampleRuntime
        "buildCache sampleNetworks Map.empty" "JStr ''path''" "Some ''10''" JUndefined
        "Some addressPathRaw" sampleRuntime Map.empty "JStr ''path''" "Some ''10''" JUndefined]
      raw_is_input_serialization [of "JArr [JBigInt 5]" TypeError sampleRuntime
        Map.empty "JStr ''path''" "Some ''10''" JUndefined
        None sampleRuntime Map.empty "JStr ''path''" "Some ''10''" JUndefined]
    by simp
qed

text \<open>
  The claim as stated fails for a string, whose serialization is the quoted text while
  \<open>raw\<close> is the text itself, and for a number that is not finite, whose serialization is
  \<open>null\<close> while \<open>raw\<close> is \<open>NaN\<close> or \<open>Infinity\<close>.
\<close>

theorem raw_is_input_serialization_counterexample:
  "jsonStringify (JStr ''WETH'') = Inr (Some (quoteJSONString ''WETH''))
   \<and> formatValueEnhanced sampleRuntime Map.empty (JStr ''symbol'') (JStr ''WETH'') None JUndefined
       = Inr \<lparr>formatted = ''WETH'', raw = ''WETH''\<rparr>
   \<and> quoteJSONString ''WETH'' \<noteq> ''WETH''
   \<and> jsonStringify (JNum NaN) = Inr (Some ''null'')
   \<and> formatValueEnhanced sampleRuntime Map.empty (JStr ''fee'') (JNum NaN) None JUndefined
       = Inr \<lparr>formatted = ''NaN'', raw = ''NaN''\<rparr>
   \<and> jsonStringify (JNum PosInfinity) = Inr (Some ''null'')
   \<and> formatValueEnhanced sampleRuntime Map.empty (JStr ''fee'') (JNum PosInfinity) None JUndefined
       = Inr \<lparr>formatted = ''Infinity'', raw = ''Infinity''\<rparr>"
  by (simp add: formatValueEnhanced.simps tryFormat.simps jsonStringify_def
        not_isBigNumberLike_JStr isBigNumberLike_def quoteJSONString_def)

section \<open>Fee-tier paths\<close>

lemma v2Token_symbolOf:
  "symbolOf rt cache chainId a \<noteq> [] \<Longrightarrow> v2Token rt cache chainId (JStr a) = Inr (symbolOf rt cache chainId a)"
  by (auto simp: symbolOf_def v2Token_def bindE_def symbolOr_def split: option.splits)

lemma tokenLabel_symbolOf:
  "symbolOf rt cache chainId a \<noteq> [] \<Longrightarrow>
     bindE (resolveTokenAny (checksum rt) cache (JStr a) (orUndefined chainId))
       (\<lambda>token. bindE (symbolOr token (shortForm (JStr a))) f)
     = f (symbolOf rt cache chainId a)"
  by (auto simp: symbolOf_def bindE_def symbolOr_def split: option.splits)

lemma v3Step_hop:
  "symbolOf rt cache chainId b \<noteq> [] \<Longrightarrow>
     v3Step rt cache chainId (feeTierHop a b w)
       = Inr (arrow @ (if w = 0 then [] else '' ('' @ percentText (sint w) @ ''%)'')
              @ '' '' @ symbolOf rt cache chainId b)"
  by (auto simp: v3Step_def feeTierHop_def symbolOf_def symbolOr_def bindE_def percentOf_def
        split: option.splits)

lemma join_steps: "join '' '' (x # xs) = x @ concat (map (\<lambda>s. '' '' @ s) xs)"
  by (induction xs arbitrary: x) simp_all

lemma mapE_v3Step:
  "resolvable rt cache chainId hops \<Longrightarrow>
     \<exists>steps. mapE (v3Step rt cache chainId) (feeTierPath hops) = Inr steps
            \<and> concat (map (\<lambda>s. '' '' @ s) steps) = hopsText rt cache chainId hops"
proof (induction hops)
  case Nil
  then show ?case by (simp add: feeTierPath_def)
next
  case (Cons hop hops)
  obtain a b w where hop: "hop = (a, b, w)" by (cases hop)
  from Cons.prems hop have r: "symbolOf rt cache chainId b \<noteq> []" "resolvable rt cache chainId hops"
    by (simp_all add: resolvable_def)
  from Cons.IH [OF r(2)] obtain steps where
    s: "mapE (v3Step rt cache chainId) (feeTierPath hops) = Inr steps"
       "concat (map (\<lambda>s. '' '' @ s) steps) = hopsText rt cache chainId hops"
    by blast
  have "mapE (v3Step rt cache chainId) (feeTierPath (hop # hops))
          = Inr ((arrow @ (if w = 0 then [] else '' ('' @ percentText (sint w) @ ''%)'')
                  @ '' '' @ symbolOf rt cache chainId b) # steps)"
    using s(1) hop by (simp add: feeTierPath_def v3Step_hop [OF r(1)] bindE_def)
  with s(2) hop show ?case by simp
qed

lemma formatV3Path_hops:
  assumes "resolvable rt cache chainId ((a, b, w) # hops)"
  shows "formatV3Path rt cache (feeTierPath ((a, b, w) # hops)) chainId
           = Inr (symbolOf rt cache chainId a @ hopsText rt cache chainId ((a, b, w) # hops))"
proof -
  from assms have a: "symbolOf rt cache chainId a \<noteq> []" by (simp add: resolvable_def)
  from mapE_v3Step [OF assms] obtain steps where
    s: "mapE (v3Step rt cache chainId) (feeTierPath ((a, b, w) # hops)) = Inr steps"
       "concat (map (\<lambda>s. '' '' @ s) steps) = hopsText rt cache chainId ((a, b, w) # hops)"
    by blast
  have "formatV3Path rt cache (feeTierPath ((a, b, w) # hops)) chainId
          = Inr (join '' '' (symbolOf rt cache chainId a # steps))"
    using s(1) tokenLabel_symbolOf [OF a]
    by (simp add: formatV3Path_def feeTierPath_def feeTierHop_def bindE_def)
  with s(2) show ?thesis by (simp only: join_steps)
qed

lemma percentText_3000: "percentText 3000 = ''0.3''"
  by (simp add: percentText_def formatUnitsText_showInt signText_def scaledEvals)

lemma feeTierPath_shape:
  "hops \<noteq> [] \<Longrightarrow> \<not> list_all isNamedField (feeTierPath hops)"
  "hops \<noteq> [] \<Longrightarrow> \<not> list_all isAddressText (feeTierPath hops)"
  "list_all isV3Hop (feeTierPath hops)"
  "\<not> anyBigInt (feeTierPath hops)"
  by (induction hops)
     (auto simp: feeTierPath_def feeTierHop_def isNamedField_def isV3Hop_def)

lemma formatValueEnhanced_feeTier:
  assumes "items \<noteq> []" and "\<not> list_all isNamedField items"
    and "\<not> list_all isAddressText items" and "list_all isV3Hop items"
    and "jsonStringify (JArr items) = Inr (Some r)"
    and "formatV3Path rt cache items chainId = Inr text"
  shows "formatValueEnhanced rt cache name (JArr items) chainId contextToken
           = Inr \<lparr>formatted = text, raw = r\<rparr>"
  using assms
  by (simp add: formatValueEnhanced.simps tryFormat.simps not_isBigNumberLike_JArr)

text \<open>
  C9 (corrected). For a fee-tier path whose tokens all resolve to a symbol, the display
  of \<open>formatV3Path\<close>, and of the formatter on the path, is the symbol of the first hop's
  input token and then for every hop a space, the arrow, the fee divided by 10000 as a
  percentage between parentheses (nothing when the fee is zero), a space and the symbol
  of the hop's output token. For the single hop with the fee 3000 this is
  \<open>SYMBOL_A\<close>, space, arrow, space, \<open>(0.3%)\<close>, space, \<open>SYMBOL_B\<close>: the arrow and the
  parenthesis are separated by a space.
\<close>

theorem fee_tier_path_rendering:
  assumes "resolvable rt cache chainId ((a, b, w) # hops)"
  shows "formatV3Path rt cache (feeTierPath ((a, b, w) # hops)) chainId
           = Inr (symbolOf rt cache chainId a @ hopsText rt cache chainId ((a, b, w) # hops))
       \<and> formatted_of (formatValueEnhanced rt cache name (JArr (feeTierPath ((a, b, w) # hops)))
            chainId contextToken)
           = Inr (symbolOf rt cache chainId a @ hopsText rt cache chainId ((a, b, w) # hops))
       \<and> (hops = [] \<and> w = 3000 \<longrightarrow>
            formatV3Path rt cache [feeTierHop a b w] chainId
              = Inr (symbolOf rt cache chainId a @ '' '' @ arrow @ '' (0.3%) ''
                     @ symbolOf rt cache chainId b))"
proof (intro conjI impI)
  show p: "formatV3Path rt cache (feeTierPath ((a, b, w) # hops)) chainId
           = Inr (symbolOf rt cache chainId a @ hopsText rt cache chainId ((a, b, w) # hops))"
    by (rule formatV3Path_hops [OF assms])
  obtain r where r: "jsonStringify (JArr (feeTierPath ((a, b, w) # hops))) = Inr (Some r)"
    using jsonStringify_Inr_iff [of "JArr (feeTierPath ((a, b, w) # hops))"]
      feeTierPath_shape(4) [of "(a, b, w) # hops"]
      jsonStringify_defined [of "JArr (feeTierPath ((a, b, w) # hops))"]
    by (cases "jsonStringify (JArr (feeTierPath ((a, b, w) # hops)))") auto
  show "formatted_of (formatValueEnhanced rt cache name (JArr (feeTierPath ((a, b, w) # hops)))
            chainId contextToken)
           = Inr (symbolOf rt cache chainId a @ hopsText rt cache chainId ((a, b, w) # hops))"
    using formatValueEnhanced_feeTier [OF _ feeTierPath_shape(1,2,3) r p, of name contextToken]
    by (simp add: formatted_of_def feeTierPath_def)
  assume "hops = [] \<and> w = 3000"
  with p show "formatV3Path rt cache [feeTierHop a b w] chainId
              = Inr (symbolOf rt cache chainId a @ '' '' @ arrow @ '' (0.3%) ''
                     @ symbolOf rt cache chainId b)"
    by (simp add: feeTierPath_def percentText_3000)
qed

lemma symbolOf_samples:
  "symbolOf sampleRuntime (buildCache sampleNetworks Map.empty) (Some ''10'') usdcAddress = ''USDC.e''"
  "symbolOf sampleRuntime (buildCache sampleNetworks Map.empty) (Some ''10'') zeroAddress = ''ETH''"
  by (simp_all add: symbolOf_def evals sampleData)

theorem fee_tier_path_rendering_witness:
  "resolvable sampleRuntime (buildCache sampleNetworks Map.empty) (Some ''10'')
     [(usdcAddress, zeroAddress, 3000)]
   \<and> formatV3Path sampleRuntime (buildCache sampleNetworks Map.empty)
        [feeTierHop usdcAddress zeroAddress 3000] (Some ''10'')
       = Inr (''USDC.e '' @ arrow @ '' (0.3%) ETH'')
   \<and> formatted_of (formatValueEnhanced sampleRuntime (buildCache sampleNetworks Map.empty)
        (JStr ''path'') (JArr [feeTierHop usdcAddress zeroAddress 3000]) (Some ''10'') JUndefined)
       = Inr (''USDC.e '' @ arrow @ '' (0.3%) ETH'')"
proof -
  have r: "resolvable sampleRuntime (buildCache sampleNetworks Map.empty) (Some ''10'')
     [(usdcAddress, zeroAddress, 3000)]"
    by (simp add: resolvable_def symbolOf_samples)
  show ?thesis
    using r fee_tier_path_rendering [OF r, of "JStr ''path''" JUndefined]
    by (simp add: symbolOf_samples feeTierPath_def percentText_3000)
qed

text \<open>
  The claim as stated fails on its own example: the text has a space between the arrow
  and the parenthesis.
\<close>

theorem fee_tier_path_counterexample:
  "formatV3Path sampleRuntime (buildCache sampleNetworks Map.empty)
        [feeTierHop usdcAddress zeroAddress 3000] (Some ''10'')
     = Inr (''USDC.e '' @ arrow @ '' (0.3%) ETH'')
   \<and> ''USDC.e '' @ arrow @ '' (0.3%) ETH'' \<noteq> ''USDC.e '' @ arrow @ ''(0.3%) ETH''"
proof -
  have r: "resolvable sampleRuntime (buildCache sampleNetworks Map.empty) (Some ''10'')
     [(usdcAddress, zeroAddress, 3000)]"
    by (simp add: resolvable_def symbolOf_samples)
  show ?thesis
    using formatV3Path_hops [OF r]
    by (simp add: symbolOf_samples feeTierPath_def percentText_3000 arrow_def)
qed

section \<open>The amounts of a swap descriptor\<close>

lemma getProp_propOf: "getProp h k = Inr v \<Longrightarrow> v = propOf h k"
  by (cases h) auto

lemma formatTokenAmount_falsy:
  "\<not> truthy t \<Longrightarrow> \<not> truthy t' \<Longrightarrow>
     formatTokenAmount rt cache amount t chainId = formatTokenAmount rt cache amount t' chainId"
  by (simp add: formatTokenAmount_def)

lemma amountLine_falsy:
  "\<not> truthy t \<Longrightarrow> \<not> truthy t' \<Longrightarrow>
     amountLine rt cache chainId label amount t = amountLine rt cache chainId label amount t'"
  by (simp add: amountLine_def formatTokenAmount_falsy [of t t'])

lemma swapParts_output:
  assumes "swapParts rt cache obj chainId = Inr parts"
  shows "\<exists>fromLine toLine inLine outLine minLine pathLine.
           parts = fromLine @ toLine @ inLine @ outLine @ minLine @ pathLine
           \<and> amountLine rt cache chainId ''Amount Out: '' (propOf obj ''amountOut'')
                 (outputCurrency obj) = Inr outLine
           \<and> amountLine rt cache chainId ''Min Out: '' (propOf obj ''amountOutMinimum'')
                 (outputCurrency obj) = Inr minLine"
proof -
  obtain pathToken where
    pt: "(case propOf obj ''path'' of
            JArr (hop # rest) \<Rightarrow> getProp hop ''intermediateCurrency''
          | _ \<Rightarrow> Inr JUndefined) = Inr pathToken"
    using assms unfolding swapParts_def Let_def by (auto dest!: bindE_Inr)
  then have pathToken: "pathToken = (case propOf obj ''path'' of
             JArr (hop # rest) \<Rightarrow> propOf hop ''intermediateCurrency''
           | _ \<Rightarrow> JUndefined)"
    by (auto split: jsval.splits list.splits dest: getProp_propOf)
  have same: "amountLine rt cache chainId label amount
                (orElse (if truthy (propOf obj ''currencyOut'') then propOf obj ''currencyOut''
                         else pathToken) (propOf obj ''currencyOut''))
              = amountLine rt cache chainId label amount (outputCurrency obj)" for label amount
  proof (cases "truthy (propOf obj ''currencyOut'')")
    case True
    then show ?thesis by (simp add: orElse_def outputCurrency_def)
  next
    case False
    show ?thesis
    proof (cases "truthy pathToken")
      case True
      with False pathToken show ?thesis by (simp add: orElse_def outputCurrency_def)
    next
      case f: False
      have "\<not> truthy (outputCurrency obj)"
        using False f pathToken by (simp add: outputCurrency_def)
      moreover have "\<not> truthy (orElse (if truthy (propOf obj ''currencyOut'')
                         then propOf obj ''currencyOut'' else pathToken) (propOf obj ''currencyOut''))"
        using False f by (simp add: orElse_def)
      ultimately show ?thesis by (intro amountLine_falsy)
    qed
  qed
  show ?thesis
    using assms pt unfolding swapParts_def Let_def
    by (auto dest!: bindE_Inr simp: same) blast
qed

lemma amountLine_scaled:
  assumes "convertAmount amount = Amount (JBigInt n)"
      and "\<not> (isBigNumberLike amount \<and> hexOf amount = JStr CONTRACT_BALANCE)"
      and "truthy amount" and "truthy token"
      and "resolveTokenAny (checksum rt) cache token (orUndefined chainId) = Inr (Some info)"
  shows "amountLine rt cache chainId label amount token
           = Inr [label @ signText n @ scaledText 6 (nat \<bar>n\<bar>) (decimals info) @ '' '' @ symbol info]"
  using assms(3,4,5)
  by (simp add: amountLine_def formatTokenAmount_Amount [OF assms(1,2)] bindE_def)

lemma swapParts_earlier_output:
  assumes "swapParts_earlier rt cache obj = Inr parts"
  shows "\<exists>fromLine toLine inLine outLine minLine pathLine.
           parts = fromLine @ toLine @ inLine @ outLine @ minLine @ pathLine
           \<and> amountLine_earlier rt cache ''Amount Out: '' (propOf obj ''amountOut'')
                 (propOf obj ''currencyOut'') = Inr outLine
           \<and> amountLine_earlier rt cache ''Min Out: '' (propOf obj ''amountOutMinimum'')
                 (propOf obj ''currencyOut'') = Inr minLine"
  using assms unfolding swapParts_earlier_def Let_def
  by (auto dest!: bindE_Inr) blast

text \<open>
  C7 (corrected). In the current revision (\<open>src/unnamed/part_003\<close>), when the lines of a
  swap descriptor are formatted without an exception, the lines of \<open>amountOut\<close> and of
  \<open>amountOutMinimum\<close> are the texts of \<open>formatTokenAmount\<close> for the output currency: the
  explicit \<open>currencyOut\<close> when there is one, and otherwise the intermediate currency of
  the first hop of the path. For an amount that converts to the integer \<open>n\<close> and an
  output currency that resolves, the line is \<open>n\<close> scaled by the decimals of that
  currency, cut after six digits, with its symbol. In the earlier revision
  (\<open>src/src/utils/enhancedFormatter.ts\<close>) the two lines are the texts of
  \<open>formatTokenAmount\<close> for \<open>currencyOut\<close> alone, whatever the path.
\<close>

theorem swap_output_currency:
  "(swapParts rt cache obj chainId = Inr parts \<longrightarrow>
      (\<exists>fromLine toLine inLine outLine minLine pathLine.
           parts = fromLine @ toLine @ inLine @ outLine @ minLine @ pathLine
           \<and> amountLine rt cache chainId ''Amount Out: '' (propOf obj ''amountOut'')
                 (outputCurrency obj) = Inr outLine
           \<and> amountLine rt cache chainId ''Min Out: '' (propOf obj ''amountOutMinimum'')
                 (outputCurrency obj) = Inr minLine))
   \<and> (convertAmount amount = Amount (JBigInt n)
        \<and> \<not> (isBigNumberLike amount \<and> hexOf amount = JStr CONTRACT_BALANCE)
        \<and> truthy amount \<and> truthy (outputCurrency obj)
        \<and> resolveTokenAny (checksum rt) cache (outputCurrency obj) (orUndefined chainId)
            = Inr (Some info)
      \<longrightarrow> amountLine rt cache chainId label amount (outputCurrency obj)
            = Inr [label @ signText n @ scaledText 6 (nat \<bar>n\<bar>) (decimals info) @ '' ''
                   @ symbol info])
   \<and> (swapParts_earlier rt cache obj = Inr parts' \<longrightarrow>
      (\<exists>fromLine toLine inLine outLine minLine pathLine.
           parts' = fromLine @ toLine @ inLine @ outLine @ minLine @ pathLine
           \<and> amountLine_earlier rt cache ''Amount Out: '' (propOf obj ''amountOut'')
                 (propOf obj ''currencyOut'') = Inr outLine
           \<and> amountLine_earlier rt cache ''Min Out: '' (propOf obj ''amountOutMinimum'')
                 (propOf obj ''currencyOut'') = Inr minLine))"
proof (intro conjI impI)
  assume "swapParts rt cache obj chainId = Inr parts"
  then show "\<exists>fromLine toLine inLine outLine minLine pathLine.
           parts = fromLine @ toLine @ inLine @ outLine @ minLine @ pathLine
           \<and> amountLine rt cache chainId ''Amount Out: '' (propOf obj ''amountOut'')
                 (outputCurrency obj) = Inr outLine
           \<and> amountLine rt cache chainId ''Min Out: '' (propOf obj ''amountOutMinimum'')
                 (outputCurrency obj) = Inr minLine"
    by (rule swapParts_output)
next
  assume a: "convertAmount amount = Amount (JBigInt n)
        \<and> \<not> (isBigNumberLike amount \<and> hexOf amount = JStr CONTRACT_BALANCE)
        \<and> truthy amount \<and> truthy (outputCurrency obj)
        \<and> resolveTokenAny (checksum rt) cache (outputCurrency obj) (orUndefined chainId)
            = Inr (Some info)"
  show "amountLine rt cache chainId label amount (outputCurrency obj)
            = Inr [label @ signText n @ scaledText 6 (nat \<bar>n\<bar>) (decimals info) @ '' ''
                   @ symbol info]"
    by (rule amountLine_scaled) (use a in simp_all)
next
  assume "swapParts_earlier rt cache obj = Inr parts'"
  then show "\<exists>fromLine toLine inLine outLine minLine pathLine.
           parts' = fromLine @ toLine @ inLine @ outLine @ minLine @ pathLine
           \<and> amountLine_earlier rt cache ''Amount Out: '' (propOf obj ''amountOut'')
                 (propOf obj ''currencyOut'') = Inr outLine
           \<and> amountLine_earlier rt cache ''Min Out: '' (propOf obj ''amountOutMinimum'')
                 (propOf obj ''currencyOut'') = Inr minLine"
    by (rule swapParts_earlier_output)
qed

lemma pathSwap_parts:
  "swapParts sampleRuntime (buildCache sampleNetworks Map.empty) pathSwap (Some ''10'')
     = Inr [''From: ETH'', ''Amount Out: 1.5 USDC.e'', ''Min Out: 1.234567 USDC.e'',
            ''Path: '' @ arrow @ '' USDC.e'']"
  by (simp add: evals sampleData pathSwap_def replicate_numeral_eval)

lemma explicitSwap_parts:
  "swapParts sampleRuntime (buildCache sampleNetworks Map.empty) explicitSwap (Some ''10'')
     = Inr [''From: USDC.e'', ''To: ETH'', ''Amount Out: 1.5 ETH'', ''Path: '' @ arrow @ '' USDC.e'']"
  by (simp add: evals sampleData explicitSwap_def)

lemma pathSwap_earlier_parts:
  "swapParts_earlier sampleRuntime (buildCache sampleNetworks Map.empty) pathSwap
     = Inr [''From: ETH'', ''Amount Out: 0.0000000000015 tokens'',
            ''Min Out: 0.000000000001234567 tokens'', ''Path: '' @ arrow @ '' USDC.e'']"
  by (simp add: evals sampleData pathSwap_def replicate_numeral_eval)

lemma output_samples:
  "outputCurrency pathSwap = JStr usdcAddress" "outputCurrency explicitSwap = JStr zeroAddress"
  by (simp_all add: outputCurrency_def pathSwap_def explicitSwap_def zeroAddress_def)

theorem swap_output_currency_witness:
  "swapParts sampleRuntime (buildCache sampleNetworks Map.empty) pathSwap (Some ''10'')
     = Inr [''From: ETH'', ''Amount Out: 1.5 USDC.e'', ''Min Out: 1.234567 USDC.e'',
            ''Path: '' @ arrow @ '' USDC.e'']
   \<and> outputCurrency pathSwap = JStr usdcAddress
   \<and> amountLine sampleRuntime (buildCache sampleNetworks Map.empty) (Some ''10'') ''Amount Out: ''
        (propOf pathSwap ''amountOut'') (outputCurrency pathSwap) = Inr [''Amount Out: 1.5 USDC.e'']
   \<and> amountLine sampleRuntime (buildCache sampleNetworks Map.empty) (Some ''10'') ''Min Out: ''
        (propOf pathSwap ''amountOutMinimum'') (outputCurrency pathSwap)
       = Inr [''Min Out: 1.234567 USDC.e'']
   \<and> swapParts_earlier sampleRuntime (buildCache sampleNetworks Map.empty) pathSwap
       = Inr [''From: ETH'', ''Amount Out: 0.0000000000015 tokens'',
              ''Min Out: 0.000000000001234567 tokens'', ''Path: '' @ arrow @ '' USDC.e'']
   \<and> amountLine_earlier sampleRuntime (buildCache sampleNetworks Map.empty) ''Amount Out: ''
        (propOf pathSwap ''amountOut'') (propOf pathSwap ''currencyOut'')
       = Inr [''Amount Out: 0.0000000000015 tokens'']"
proof -
  have a: "amountLine sampleRuntime (buildCache sampleNetworks Map.empty) (Some ''10'') ''Amount Out: ''
        (propOf pathSwap ''amountOut'') (outputCurrency pathSwap) = Inr [''Amount Out: 1.5 USDC.e'']"
    "amountLine sampleRuntime (buildCache sampleNetworks Map.empty) (Some ''10'') ''Min Out: ''
        (propOf pathSwap ''amountOutMinimum'') (outputCurrency pathSwap)
       = Inr [''Min Out: 1.234567 USDC.e'']"
    "amountLine_earlier sampleRuntime (buildCache sampleNetworks Map.empty) ''Amount Out: ''
        (propOf pathSwap ''amountOut'') (propOf pathSwap ''currencyOut'')
       = Inr [''Amount Out: 0.0000000000015 tokens'']"
    by (simp_all add: output_samples)
       (simp_all add: evals sampleData pathSwap_def replicate_numeral_eval)
  show ?thesis
    using pathSwap_parts pathSwap_earlier_parts output_samples(1) a
      swap_output_currency [of sampleRuntime "buildCache sampleNetworks Map.empty" pathSwap
        "Some ''10''"
        "[''From: ETH'', ''Amount Out: 1.5 USDC.e'', ''Min Out: 1.234567 USDC.e'',
          ''Path: '' @ arrow @ '' USDC.e'']"]
    by simp
qed

text \<open>
  The claim as stated fails in the earlier revision: for a descriptor without output
  currency whose path leads to a token of six decimals, the two amounts are scaled by 18
  decimals and labelled \<open>tokens\<close>, where the current revision scales them by six.
\<close>

theorem swap_output_currency_counterexample:
  "propOf pathSwap ''currencyOut'' = JUndefined
   \<and> outputCurrency pathSwap = JStr usdcAddress
   \<and> formatSwapObject_earlier sampleRuntime (buildCache sampleNetworks Map.empty) pathSwap
       = ''From: ETH'' @ newline @ ''Amount Out: 0.0000000000015 tokens'' @ newline
         @ ''Min Out: 0.000000000001234567 tokens'' @ newline @ ''Path: '' @ arrow @ '' USDC.e''
   \<and> formatSwapObject sampleRuntime (buildCache sampleNetworks Map.empty) pathSwap (Some ''10'')
       = ''From: ETH'' @ newline @ ''Amount Out: 1.5 USDC.e'' @ newline
         @ ''Min Out: 1.234567 USDC.e'' @ newline @ ''Path: '' @ arrow @ '' USDC.e''"
  using output_samples(1)
  by (simp add: formatSwapObject_earlier_def formatSwapObject_def pathSwap_earlier_parts
        pathSwap_parts) (simp add: pathSwap_def)

section \<open>The classification of arrays\<close>

lemma formatItems_lines:
  "\<not> anyBigInt items \<Longrightarrow>
     formatItems rt cache items chainId = Inr (map (fieldLine rt cache chainId) items)"
proof (induction items)
  case Nil
  then show ?case by simp
next
  case (Cons item rest)
  then have "\<not> containsBigInt (propOf item ''value'')"
    by (auto dest: containsBigInt_propOf)
  then obtain res where
    "formatValueEnhanced rt cache (propOf item ''name'') (propOf item ''value'')
       chainId JUndefined = Inr res"
    using formatValueEnhanced_returns by blast
  with Cons show ?case
    by (simp add: fieldLine_def)
qed

text \<open>
  C10 (corrected). An array that is not empty and whose serialization returns, that is,
  which holds no native bigint at any depth, is classified in this order: a list of named
  fields when every element is an object with both \<open>name\<close> and \<open>value\<close>, whatever else
  the elements have; else an address path; else a fee-tier path; else an
  intermediate-currency path; else opaque. A list of named fields is displayed as the
  lines \<open>name: text\<close>, the text being the display of the formatter on the field's value,
  for the same network and without contextual token, and each of these inner calls
  returns.
\<close>

theorem array_classification_order:
  assumes "items \<noteq> []" and "jsonStringify (JArr items) = Inr (Some r)"
  shows "(list_all isNamedField items \<longrightarrow>
            formatValueEnhanced rt cache name (JArr items) chainId contextToken
              = Inr \<lparr>formatted = join newline (map (fieldLine rt cache chainId) items),
                     raw = r\<rparr>
            \<and> (\<forall>item \<in> set items.
                  \<exists>res. formatValueEnhanced rt cache (propOf item ''name'')
                          (propOf item ''value'') chainId JUndefined = Inr res))
       \<and> (\<not> list_all isNamedField items \<and> list_all isAddressText items \<longrightarrow>
            formatValueEnhanced rt cache name (JArr items) chainId contextToken
              = Inr \<lparr>formatted = orErrorText (formatV2Path rt cache items chainId), raw = r\<rparr>)
       \<and> (\<not> list_all isNamedField items \<and> \<not> list_all isAddressText items
            \<and> list_all isV3Hop items \<longrightarrow>
            formatValueEnhanced rt cache name (JArr items) chainId contextToken
              = Inr \<lparr>formatted = orErrorText (formatV3Path rt cache items chainId), raw = r\<rparr>)
       \<and> (\<not> list_all isNamedField items \<and> \<not> list_all isAddressText items
            \<and> \<not> list_all isV3Hop items \<and> list_all isV4Hop items \<longrightarrow>
            formatValueEnhanced rt cache name (JArr items) chainId contextToken
              = Inr \<lparr>formatted = orErrorText (formatV4Path rt cache items chainId), raw = r\<rparr>)
       \<and> (\<not> list_all isNamedField items \<and> \<not> list_all isAddressText items
            \<and> \<not> list_all isV3Hop items \<and> \<not> list_all isV4Hop items \<longrightarrow>
            formatValueEnhanced rt cache name (JArr items) chainId contextToken
              = Inr \<lparr>formatted = ''Array with '' @ showNat (length items) @ '' items'', raw = r\<rparr>)"
proof -
  from assms(2) have nb: "\<not> anyBigInt items"
    using jsonStringify_Inr_iff [of "JArr items"] by auto
  have inner: "\<forall>item \<in> set items.
      \<exists>res. formatValueEnhanced rt cache (propOf item ''name'')
              (propOf item ''value'') chainId JUndefined = Inr res"
  proof
    fix item assume "item \<in> set items"
    with nb have "\<not> containsBigInt item" by (induction items) auto
    then have "\<not> containsBigInt (propOf item ''value'')"
      by (auto dest: containsBigInt_propOf)
    then show "\<exists>res. formatValueEnhanced rt cache (propOf item ''name'')
              (propOf item ''value'') chainId JUndefined = Inr res"
      by (rule formatValueEnhanced_returns)
  qed
  show ?thesis
    using assms inner formatItems_lines [OF nb, of rt cache chainId]
    by (auto simp: formatValueEnhanced.simps tryFormat.simps not_isBigNumberLike_JArr
             orErrorText_def split: sum.splits)
qed

lemma overlappingFields_shape:
  "overlappingFields \<noteq> []" "list_all isNamedField overlappingFields"
  "list_all isV3Hop overlappingFields"
  by (simp_all add: overlappingFields_def isNamedField_def isV3Hop_def)

lemma stringify_overlappingFields:
  "jsonStringify (JArr overlappingFields) = Inr (Some overlappingRaw)"
  by (simp add: evals overlappingFields_def overlappingRaw_def usdcAddress_def)

lemma overlappingFields_lines:
  "map (fieldLine sampleRuntime (buildCache sampleNetworks Map.empty) (Some ''10'')) overlappingFields
     = [''token: USDC.e (0xa0b8...eb48)'', ''fee: 3000'']"
  by (simp add: fieldLine_def evals sampleData overlappingFields_def)

theorem array_classification_order_witness:
  "overlappingFields \<noteq> [] \<and> jsonStringify (JArr overlappingFields) = Inr (Some overlappingRaw)
   \<and> list_all isNamedField overlappingFields \<and> list_all isV3Hop overlappingFields
   \<and> formatValueEnhanced sampleRuntime (buildCache sampleNetworks Map.empty) (JStr ''params'')
        (JArr overlappingFields) (Some ''10'') JUndefined
       = Inr \<lparr>formatted = ''token: USDC.e (0xa0b8...eb48)'' @ newline @ ''fee: 3000'',
              raw = overlappingRaw\<rparr>"
  using overlappingFields_shape stringify_overlappingFields overlappingFields_lines
    array_classification_order [OF overlappingFields_shape(1) stringify_overlappingFields,
      of sampleRuntime "buildCache sampleNetworks Map.empty" "JStr ''params''" "Some ''10''"
         JUndefined]
  by simp

text \<open>
  The claim as stated fails for an array with a native bigint in it: the serialization
  at the head of the formatter raises a TypeError before any classification, and the
  formatter returns nothing, although every element has both \<open>name\<close> and \<open>value\<close>.
\<close>

theorem array_classification_counterexample:
  "bigintFields \<noteq> [] \<and> list_all isNamedField bigintFields
   \<and> jsonStringify (JArr bigintFields) = Inl TypeError
   \<and> formatValueEnhanced sampleRuntime (buildCache sampleNetworks Map.empty) (JStr ''params'')
        (JArr bigintFields) (Some ''10'') JUndefined = Inl TypeError"
  by (simp add: bigintFields_def isNamedField_def jsonStringify_def formatValueEnhanced.simps)

end
